theory Spec2Isabelle
  imports Complex_Main
begin


section \<open>Python values\<close>

text \<open>
  The program of \<^verbatim>\<open>task_templating.py\<close> works on decoded JSON: the template read by
  \<^verbatim>\<open>json.load\<close>, the bodies returned by \<^verbatim>\<open>response.json()\<close>, and the payload
  dictionaries it builds. A dictionary is an association list read with \<open>map_of\<close>
  (keys of a decoded object are distinct). NaN and the infinities are not represented.
\<close>

datatype json =
    JNull
  | JBool bool
  | JInt int
  | JFloat real
  | JStr string
  | JList "json list"
  | JObj "(string \<times> json) list"

text \<open>
  The exceptions that can leave a function of the program. \<^verbatim>\<open>ValueError\<close> and
  \<^verbatim>\<open>requests.exceptions.RequestException\<close> are caught wherever they can arise and are
  modelled by \<open>option\<close> results of the library functions.
\<close>

datatype py_error = KeyError | TypeError | AttributeError | OverflowError | EOFError

text \<open>Truth value testing: \<^verbatim>\<open>if x:\<close>, \<^verbatim>\<open>not x\<close>.\<close>

fun truthy :: "json \<Rightarrow> bool" where
  "truthy JNull = False"
| "truthy (JBool b) = b"
| "truthy (JInt n) = (n \<noteq> 0)"
| "truthy (JFloat x) = (x \<noteq> 0)"
| "truthy (JStr s) = (s \<noteq> [])"
| "truthy (JList xs) = (xs \<noteq> [])"
| "truthy (JObj kvs) = (kvs \<noteq> [])"

text \<open>A variable that holds \<^verbatim>\<open>None\<close> or a decoded value.\<close>

definition truthy_opt :: "json option \<Rightarrow> bool" where
  "truthy_opt x = (case x of None \<Rightarrow> False | Some v \<Rightarrow> truthy v)"

text \<open>\<^verbatim>\<open>sub in s\<close> on strings.\<close>

fun is_substring :: "string \<Rightarrow> string \<Rightarrow> bool" where
  "is_substring sub [] = (sub = [])"
| "is_substring sub (c # cs) = (take (length sub) (c # cs) = sub \<or> is_substring sub cs)"

text \<open>\<^verbatim>\<open>k in x\<close> for a string \<open>k\<close>: key of a dict, element of a list, substring of a string;
  a number, a boolean or \<^verbatim>\<open>None\<close> is not iterable.\<close>

fun py_in :: "string \<Rightarrow> json \<Rightarrow> py_error + bool" where
  "py_in k (JObj kvs) = Inr (map_of kvs k \<noteq> None)"
| "py_in k (JList xs) = Inr (JStr k \<in> set xs)"
| "py_in k (JStr s) = Inr (is_substring k s)"
| "py_in k JNull = Inl TypeError"
| "py_in k (JBool b) = Inl TypeError"
| "py_in k (JInt n) = Inl TypeError"
| "py_in k (JFloat x) = Inl TypeError"

text \<open>\<^verbatim>\<open>x[k]\<close> for a string \<open>k\<close>: only a dict can be indexed by a string.\<close>

fun subscript :: "json \<Rightarrow> string \<Rightarrow> py_error + json" where
  "subscript (JObj kvs) k = (case map_of kvs k of None \<Rightarrow> Inl KeyError | Some v \<Rightarrow> Inr v)"
| "subscript JNull k = Inl TypeError"
| "subscript (JBool b) k = Inl TypeError"
| "subscript (JInt n) k = Inl TypeError"
| "subscript (JFloat x) k = Inl TypeError"
| "subscript (JStr s) k = Inl TypeError"
| "subscript (JList xs) k = Inl TypeError"

text \<open>\<^verbatim>\<open>x.get(k, d)\<close>: only a dict has the method.\<close>

fun dict_get :: "json \<Rightarrow> string \<Rightarrow> json \<Rightarrow> py_error + json" where
  "dict_get (JObj kvs) k d = Inr (case map_of kvs k of None \<Rightarrow> d | Some v \<Rightarrow> v)"
| "dict_get JNull k d = Inl AttributeError"
| "dict_get (JBool b) k d = Inl AttributeError"
| "dict_get (JInt n) k d = Inl AttributeError"
| "dict_get (JFloat x) k d = Inl AttributeError"
| "dict_get (JStr s) k d = Inl AttributeError"
| "dict_get (JList xs) k d = Inl AttributeError"

text \<open>The elements a \<^verbatim>\<open>for\<close> loop (or \<^verbatim>\<open>enumerate\<close>) runs over.\<close>

fun py_iter :: "json \<Rightarrow> py_error + json list" where
  "py_iter (JList xs) = Inr xs"
| "py_iter (JObj kvs) = Inr (map (\<lambda>kv. JStr (fst kv)) kvs)"
| "py_iter (JStr s) = Inr (map (\<lambda>c. JStr [c]) s)"
| "py_iter JNull = Inl TypeError"
| "py_iter (JBool b) = Inl TypeError"
| "py_iter (JInt n) = Inl TypeError"
| "py_iter (JFloat x) = Inl TypeError"

section \<open>Strings\<close>

text \<open>\<^verbatim>\<open>s.replace(old, new)\<close> for a non-empty \<open>old\<close> (the program calls it with
  \<^verbatim>\<open>"Z"\<close>, \<^verbatim>\<open>"+00:00"\<close> and \<^verbatim>\<open>" "\<close> only): every occurrence, left to right, without
  overlap.\<close>

function str_replace :: "string \<Rightarrow> string \<Rightarrow> string \<Rightarrow> string" where
  "str_replace old new [] = []"
| "str_replace old new (c # cs) =
     (if old \<noteq> [] \<and> take (length old) (c # cs) = old
      then new @ str_replace old new (drop (length old) (c # cs))
      else c # str_replace old new cs)"
  by pat_completeness auto
termination
  by (relation "measure (\<lambda>(old, new, s). length s)") (auto simp: neq_Nil_conv)

definition upper_table :: "(char \<times> char) list" where
  "upper_table = zip ''abcdefghijklmnopqrstuvwxyz'' ''ABCDEFGHIJKLMNOPQRSTUVWXYZ''"

definition lower_table :: "(char \<times> char) list" where
  "lower_table = zip ''ABCDEFGHIJKLMNOPQRSTUVWXYZ'' ''abcdefghijklmnopqrstuvwxyz''"

text \<open>\<^verbatim>\<open>s.upper()\<close> and \<^verbatim>\<open>s.lower()\<close> on ASCII letters.\<close>

definition str_upper :: "string \<Rightarrow> string" where
  "str_upper s = map (\<lambda>c. case map_of upper_table c of None \<Rightarrow> c | Some u \<Rightarrow> u) s"

definition str_lower :: "string \<Rightarrow> string" where
  "str_lower s = map (\<lambda>c. case map_of lower_table c of None \<Rightarrow> c | Some l \<Rightarrow> l) s"

definition digit_table :: "(char \<times> nat) list" where
  "digit_table = zip ''0123456789'' [0, 1, 2, 3, 4, 5, 6, 7, 8, 9]"

definition digit_val :: "char \<Rightarrow> nat option" where
  "digit_val c = map_of digit_table c"

definition digit_char :: "nat \<Rightarrow> char" where
  "digit_char d = ''0123456789'' ! d"

text \<open>The decimal digits of a number, and \<^verbatim>\<open>"%0wd" % n\<close>.\<close>

function dec_digits :: "nat \<Rightarrow> string" where
  "dec_digits n = (if n < 10 then [digit_char n] else dec_digits (n div 10) @ [digit_char (n mod 10)])"
  by pat_completeness auto
termination
  by (relation "measure (\<lambda>n. n)") auto

declare dec_digits.simps [simp del]

definition zero_pad :: "nat \<Rightarrow> nat \<Rightarrow> string" where
  "zero_pad w n = (let ds = dec_digits n in replicate (w - length ds) (CHR ''0'') @ ds)"

text \<open>A non-empty run of ASCII decimal digits, read as a number.\<close>

definition parse_digits :: "string \<Rightarrow> nat option" where
  "parse_digits s =
     (if s \<noteq> [] \<and> list_all (\<lambda>c. digit_val c \<noteq> None) s
      then Some (foldl (\<lambda>a c. 10 * a + the (digit_val c)) 0 s)
      else None)"

section \<open>The library's \<^verbatim>\<open>datetime\<close>\<close>

text \<open>
  A \<^verbatim>\<open>datetime\<close> object: calendar fields and \<^verbatim>\<open>tzinfo\<close>, which is \<^verbatim>\<open>None\<close> for a naive
  value and otherwise a fixed offset from UTC, here in microseconds.
  The functions below follow the standard library (\<^verbatim>\<open>Lib/datetime.py\<close>).
\<close>

record datetime =
  year :: nat
  month :: nat
  day :: nat
  hour :: nat
  minute :: nat
  second :: nat
  microsecond :: nat
  tzinfo :: "int option"

definition MAXORDINAL :: nat where
  "MAXORDINAL = 3652059"

definition DAYS_IN_MONTH :: "nat list" where
  "DAYS_IN_MONTH = [0, 31, 28, 31, 30, 31, 30, 31, 31, 30, 31, 30, 31]"

definition DAYS_BEFORE_MONTH :: "nat list" where
  "DAYS_BEFORE_MONTH = [0, 0, 31, 59, 90, 120, 151, 181, 212, 243, 273, 304, 334]"

definition is_leap :: "nat \<Rightarrow> bool" where
  "is_leap y = (y mod 4 = 0 \<and> (y mod 100 \<noteq> 0 \<or> y mod 400 = 0))"

definition days_before_year :: "nat \<Rightarrow> nat" where
  "days_before_year y = (let z = y - 1 in z * 365 + z div 4 - z div 100 + z div 400)"

definition days_in_month :: "nat \<Rightarrow> nat \<Rightarrow> nat" where
  "days_in_month y m = (if m = 2 \<and> is_leap y then 29 else DAYS_IN_MONTH ! m)"

definition days_before_month :: "nat \<Rightarrow> nat \<Rightarrow> nat" where
  "days_before_month y m = DAYS_BEFORE_MONTH ! m + (if m > 2 \<and> is_leap y then 1 else 0)"

definition ymd2ord :: "nat \<Rightarrow> nat \<Rightarrow> nat \<Rightarrow> nat" where
  "ymd2ord y m d = days_before_year y + days_before_month y m + d"

text \<open>\<^verbatim>\<open>_ord2ymd\<close>: the date of a proleptic Gregorian ordinal, 1 being 0001-01-01.\<close>

definition ord2ymd :: "nat \<Rightarrow> nat \<times> nat \<times> nat" where
  "ord2ymd n =
     (let n0 = n - 1;
          n400 = n0 div 146097; r1 = n0 mod 146097;
          n100 = r1 div 36524; r2 = r1 mod 36524;
          n4 = r2 div 1461; r3 = r2 mod 1461;
          n1 = r3 div 365; r4 = r3 mod 365;
          y = n400 * 400 + 1 + n100 * 100 + n4 * 4 + n1
      in if n1 = 4 \<or> n100 = 4 then (y - 1, 12, 31)
         else
           let leapyear = (n1 = 3 \<and> (n4 \<noteq> 24 \<or> n100 = 3));
               m = (r4 + 50) div 32;
               preceding = DAYS_BEFORE_MONTH ! m + (if m > 2 \<and> leapyear then 1 else 0)
           in if preceding > r4
              then (y, m - 1,
                    r4 - (preceding - (DAYS_IN_MONTH ! (m - 1)
                                       + (if m - 1 = 2 \<and> leapyear then 1 else 0))) + 1)
              else (y, m, r4 - preceding + 1))"

definition toordinal :: "datetime \<Rightarrow> nat" where
  "toordinal dt = ymd2ord (year dt) (month dt) (day dt)"

text \<open>The range checks of the constructor; a violation is \<^verbatim>\<open>ValueError\<close>. A fixed-offset
  time zone must be strictly between \<open>-24\<close> and \<open>24\<close> hours.\<close>

definition valid_datetime :: "datetime \<Rightarrow> bool" where
  "valid_datetime dt =
     (1 \<le> year dt \<and> year dt \<le> 9999 \<and> 1 \<le> month dt \<and> month dt \<le> 12 \<and>
      1 \<le> day dt \<and> day dt \<le> days_in_month (year dt) (month dt) \<and>
      hour dt \<le> 23 \<and> minute dt \<le> 59 \<and> second dt \<le> 59 \<and> microsecond dt \<le> 999999 \<and>
      (case tzinfo dt of None \<Rightarrow> True | Some off \<Rightarrow> \<bar>off\<bar> < 86400000000))"

definition new_datetime :: "datetime \<Rightarrow> datetime option" where
  "new_datetime dt = (if valid_datetime dt then Some dt else None)"

subsection \<open>Reading back the output of \<^verbatim>\<open>isoformat\<close>\<close>

text \<open>
  Which strings \<^verbatim>\<open>datetime.fromisoformat\<close> accepts depends on the version of Python, and
  the repository fixes none: the function is therefore part of the environment of the program
  (the field \<open>fromisoformat\<close> of the world below), and the theorems hold for every such function.
  The parser defined here is the one documented for Python 3.7 to 3.10,
  \<^verbatim>\<open>YYYY-MM-DD[*HH[:MM[:SS[.fff[fff]]]][+HH:MM[:SS[.ffffff]]]]\<close>, where \<^verbatim>\<open>*\<close> is any single
  character; later versions accept more strings. It is the library function of the sample
  worlds only, whose due dates every version reads in the same way. \<open>None\<close> is \<^verbatim>\<open>ValueError\<close>.
\<close>

definition parse_isoformat_date :: "string \<Rightarrow> (nat \<times> nat \<times> nat) option" where
  "parse_isoformat_date s =
     (if length s = 10 \<and> s ! 4 = CHR ''-'' \<and> s ! 7 = CHR ''-''
      then (case (parse_digits (take 4 s), parse_digits (take 2 (drop 5 s)),
                  parse_digits (drop 8 s)) of
              (Some y, Some m, Some d) \<Rightarrow> Some (y, m, d)
            | _ \<Rightarrow> None)
      else None)"

text \<open>\<^verbatim>\<open>HH[:MM[:SS[.fff[fff]]]]\<close>\<close>

definition parse_hh_mm_ss_ff :: "string \<Rightarrow> (nat \<times> nat \<times> nat \<times> nat) option" where
  "parse_hh_mm_ss_ff s =
     (let n = length s;
          hh = parse_digits (take 2 s);
          mm = (if n \<ge> 5 \<and> s ! 2 = CHR '':'' then parse_digits (take 2 (drop 3 s)) else None);
          ss = (if n \<ge> 8 \<and> s ! 5 = CHR '':'' then parse_digits (take 2 (drop 6 s)) else None);
          ff = (if n \<ge> 12 \<and> s ! 8 = CHR ''.'' then parse_digits (drop 9 s) else None)
      in if n = 2 then map_option (\<lambda>h. (h, 0, 0, 0)) hh
         else if n = 5 then
           (case (hh, mm) of (Some h, Some m) \<Rightarrow> Some (h, m, 0, 0) | _ \<Rightarrow> None)
         else if n = 8 then
           (case (hh, mm, ss) of (Some h, Some m, Some x) \<Rightarrow> Some (h, m, x, 0) | _ \<Rightarrow> None)
         else if n = 12 then
           (case (hh, mm, ss, ff) of
              (Some h, Some m, Some x, Some f) \<Rightarrow> Some (h, m, x, f * 1000) | _ \<Rightarrow> None)
         else if n = 15 then
           (case (hh, mm, ss, ff) of
              (Some h, Some m, Some x, Some f) \<Rightarrow> Some (h, m, x, f) | _ \<Rightarrow> None)
         else None)"

definition is_sign :: "char \<Rightarrow> bool" where
  "is_sign c = (c = CHR ''+'' \<or> c = CHR ''-'')"

text \<open>The time of day and the offset: the offset starts at the first sign character.\<close>

definition parse_isoformat_time ::
  "string \<Rightarrow> ((nat \<times> nat \<times> nat \<times> nat) \<times> int option) option" where
  "parse_isoformat_time s =
     (let timestr = takeWhile (\<lambda>c. \<not> is_sign c) s;
          rest = dropWhile (\<lambda>c. \<not> is_sign c) s
      in case parse_hh_mm_ss_ff timestr of
           None \<Rightarrow> None
         | Some t \<Rightarrow>
             (case rest of
                [] \<Rightarrow> Some (t, None)
              | sg # tzstr \<Rightarrow>
                  if length tzstr \<in> set [5, 8, 15]
                  then (case parse_hh_mm_ss_ff tzstr of
                          None \<Rightarrow> None
                        | Some (h, m, x, f) \<Rightarrow>
                            Some (t, Some ((if sg = CHR ''-'' then - 1 else 1)
                                           * (int (h * 3600 + m * 60 + x) * 1000000 + int f))))
                  else None))"

definition fromisoformat_37 :: "string \<Rightarrow> datetime option" where
  "fromisoformat_37 s =
     (case parse_isoformat_date (take 10 s) of
        None \<Rightarrow> None
      | Some (y, m, d) \<Rightarrow>
          (case (if length s \<le> 10 then Some ((0, 0, 0, 0), None)
                 else parse_isoformat_time (drop 11 s)) of
             None \<Rightarrow> None
           | Some ((hh, mm, ss, us), tz) \<Rightarrow>
               new_datetime \<lparr>year = y, month = m, day = d, hour = hh, minute = mm,
                             second = ss, microsecond = us, tzinfo = tz\<rparr>))"

subsection \<open>\<^verbatim>\<open>isoformat\<close>\<close>

text \<open>\<^verbatim>\<open>_format_time\<close> with \<^verbatim>\<open>timespec='auto'\<close>: the fraction is printed only when it is
  not zero.\<close>

definition format_time :: "nat \<Rightarrow> nat \<Rightarrow> nat \<Rightarrow> nat \<Rightarrow> string" where
  "format_time hh mm ss us =
     zero_pad 2 hh @ '':'' @ zero_pad 2 mm @ '':'' @ zero_pad 2 ss
     @ (if us \<noteq> 0 then ''.'' @ zero_pad 6 us else [])"

text \<open>\<^verbatim>\<open>_format_offset\<close>: nothing for a naive value, else \<^verbatim>\<open>+HH:MM[:SS[.ffffff]]\<close>.\<close>

definition format_offset :: "int option \<Rightarrow> string" where
  "format_offset off =
     (case off of
        None \<Rightarrow> []
      | Some o1 \<Rightarrow>
          (let a = nat \<bar>o1\<bar>;
               hh = a div 3600000000;
               mm = (a mod 3600000000) div 60000000;
               ss = (a mod 60000000) div 1000000;
               us = a mod 1000000
           in (if o1 < 0 then ''-'' else ''+'') @ zero_pad 2 hh @ '':'' @ zero_pad 2 mm
              @ (if ss \<noteq> 0 \<or> us \<noteq> 0
                 then '':'' @ zero_pad 2 ss @ (if us \<noteq> 0 then ''.'' @ zero_pad 6 us else [])
                 else [])))"

definition isoformat :: "datetime \<Rightarrow> string" where
  "isoformat dt =
     zero_pad 4 (year dt) @ ''-'' @ zero_pad 2 (month dt) @ ''-'' @ zero_pad 2 (day dt) @ ''T''
     @ format_time (hour dt) (minute dt) (second dt) (microsecond dt)
     @ format_offset (tzinfo dt)"

subsection \<open>\<^verbatim>\<open>timedelta(days=n)\<close> and \<^verbatim>\<open>datetime + timedelta\<close>\<close>

text \<open>A \<^verbatim>\<open>timedelta\<close> holds at most 999999999 days in either direction, and the sum must be
  a date of the years 1 to 9999: both raise \<^verbatim>\<open>OverflowError\<close> otherwise.\<close>

definition timedelta_days :: "int \<Rightarrow> py_error + int" where
  "timedelta_days n = (if \<bar>n\<bar> > 999999999 then Inl OverflowError else Inr n)"

definition datetime_add_days :: "datetime \<Rightarrow> int \<Rightarrow> py_error + datetime" where
  "datetime_add_days dt n =
     (let days = int (toordinal dt) + n
      in if 0 < days \<and> days \<le> int MAXORDINAL
         then (case ord2ymd (nat days) of
                 (y, m, d) \<Rightarrow> Inr (dt\<lparr>year := y, month := m, day := d\<rparr>))
         else Inl OverflowError)"

section \<open>The world the program runs in\<close>

text \<open>
  What the program prints, named by the \<^verbatim>\<open>print\<close> call that produces it, with the values
  formatted into the text.
\<close>

datatype message =
    ErrorFetchingData
  | ErrorPostingData
  | CouldNotRetrieveSchedules
  | ProjectNameEmpty
  | PriorityNotRight
  | ProjectCreated string json
  | ErrorCreatingProject string
  | InvalidTemplateFormat
  | InvalidInputDefaultDueDate
  | AvailableSchedules
  | ScheduleLine nat json
  | NoScheduleSelected
  | InvalidSelection
  | InvalidInputNumber
  | CreatingTask nat nat
  | InvalidDate string
  | TaskCreated json json
  | ErrorCreatingTask json
  | PayloadSent json
  | Completed nat nat nat

datatype event =
    Print message
  | HttpGet string
  | HttpPost string json
  | Sleep nat

text \<open>
  The environment is explicit: the lines still to be read by \<^verbatim>\<open>input()\<close> (reading past
  the last one raises \<^verbatim>\<open>EOFError\<close>), the outcome of the \<open>n\<close>-th HTTP request (\<open>None\<close> when
  \<^verbatim>\<open>requests\<close> raises a \<^verbatim>\<open>RequestException\<close>, else the decoded body), the \<open>n\<close>-th reading of
  the system clock, and the trace of what the program has done so far. It also holds the two
  parsers of the interpreter whose accepted inputs depend on its version and settings:
  \<^verbatim>\<open>int(s)\<close> on a string and \<^verbatim>\<open>datetime.fromisoformat(s)\<close>, where \<open>None\<close> is \<^verbatim>\<open>ValueError\<close>, the
  only exception either of them raises on a string. The program never changes them.

  Not represented: a failure of \<^verbatim>\<open>print\<close> or \<^verbatim>\<open>time.sleep\<close>, an interruption from outside,
  and an exception of \<^verbatim>\<open>requests\<close> other than a \<^verbatim>\<open>RequestException\<close> (since \<^verbatim>\<open>requests\<close> 2.27 a
  body that is not JSON raises one as well).
\<close>

record world =
  stdin :: "string list"
  replies :: "nat \<Rightarrow> json option"
  requests :: nat
  clock :: "nat \<Rightarrow> datetime"
  ticks :: nat
  trace :: "event list"
  py_int :: "string \<Rightarrow> int option"
  fromisoformat :: "string \<Rightarrow> datetime option"

definition emit :: "event \<Rightarrow> world \<Rightarrow> world" where
  "emit e w = w\<lparr>trace := trace w @ [e]\<rparr>"

text \<open>\<^verbatim>\<open>datetime.utcnow()\<close>: a naive value.\<close>

definition utcnow :: "world \<Rightarrow> datetime \<times> world" where
  "utcnow w = ((clock w (ticks w))\<lparr>tzinfo := None\<rparr>, w\<lparr>ticks := Suc (ticks w)\<rparr>)"

definition py_input :: "world \<Rightarrow> (py_error + string) \<times> world" where
  "py_input w =
     (case stdin w of
        [] \<Rightarrow> (Inl EOFError, w)
      | l # ls \<Rightarrow> (Inr l, w\<lparr>stdin := ls\<rparr>))"

definition sleep :: "nat \<Rightarrow> world \<Rightarrow> world" where
  "sleep n w = emit (Sleep n) w"

definition API_URL :: string where
  "API_URL = ''https://api.usemotion.com/v1''"

definition tasks_url :: string where
  "tasks_url = API_URL @ ''/tasks''"

definition projects_url :: string where
  "projects_url = API_URL @ ''/projects''"

definition schedules_url :: string where
  "schedules_url = API_URL @ ''/schedules''"

definition get_data :: "string \<Rightarrow> world \<Rightarrow> json option \<times> world" where
  "get_data url w =
     (let w1 = emit (HttpGet url) w;
          r = replies w1 (requests w1);
          w2 = w1\<lparr>requests := Suc (requests w1)\<rparr>
      in case r of
           None \<Rightarrow> (None, emit (Print ErrorFetchingData) w2)
         | Some body \<Rightarrow> (Some body, w2))"

definition post_data :: "string \<Rightarrow> json \<Rightarrow> world \<Rightarrow> json option \<times> world" where
  "post_data url payload w =
     (let w1 = emit (HttpPost url payload) w;
          r = replies w1 (requests w1);
          w2 = w1\<lparr>requests := Suc (requests w1)\<rparr>
      in case r of
           None \<Rightarrow> (None, emit (Print ErrorPostingData) w2)
         | Some body \<Rightarrow> (Some body, w2))"

definition list_schedules :: "world \<Rightarrow> json option \<times> world" where
  "list_schedules w =
     (case get_data schedules_url w of
        (schedules_data, w1) \<Rightarrow>
          if truthy_opt schedules_data then (schedules_data, w1)
          else (None, emit (Print CouldNotRetrieveSchedules) w1))"

text \<open>\<^verbatim>\<open>response and "id" in response\<close>\<close>

definition response_has_id :: "json option \<Rightarrow> py_error + bool" where
  "response_has_id response =
     (case response of
        None \<Rightarrow> Inr False
      | Some r \<Rightarrow> if truthy r then py_in ''id'' r else Inr False)"

text \<open>\<^verbatim>\<open>response['id']\<close>\<close>

definition response_id :: "json option \<Rightarrow> py_error + json" where
  "response_id response =
     (case response of
        None \<Rightarrow> Inl TypeError
      | Some r \<Rightarrow> subscript r ''id'')"

text \<open>\<^verbatim>\<open>d.isoformat().replace("+00:00", "Z")\<close>\<close>

definition iso_z :: "datetime \<Rightarrow> string" where
  "iso_z d = str_replace ''+00:00'' ''Z'' (isoformat d)"

section \<open>\<^verbatim>\<open>generate_task_template\<close>\<close>

text \<open>The entry written for one task of the project; the file is the object
  \<^verbatim>\<open>{"tasks": [...]}\<close> of these entries.\<close>

definition template_entry :: "json \<Rightarrow> json \<Rightarrow> py_error + json" where
  "template_entry workspace task =
     (case dict_get task ''name'' (JStr []) of
        Inl e \<Rightarrow> Inl e
      | Inr name \<Rightarrow>
     (case subscript workspace ''id'' of
        Inl e \<Rightarrow> Inl e
      | Inr wid \<Rightarrow>
     (case dict_get task ''dueDate'' (JStr ''2024-12-31T23:59:59Z'') of
        Inl e \<Rightarrow> Inl e
      | Inr due \<Rightarrow>
     (case dict_get task ''duration'' (JInt 30) of
        Inl e \<Rightarrow> Inl e
      | Inr dur \<Rightarrow>
     (case dict_get task ''priority'' (JStr ''MEDIUM'') of
        Inl e \<Rightarrow> Inl e
      | Inr prio \<Rightarrow>
          Inr (JObj [(''name'', name), (''workspaceId'', wid), (''dueDate'', due),
                     (''duration'', dur), (''priority'', prio)]))))))"

fun template_tasks :: "json \<Rightarrow> json list \<Rightarrow> py_error + json list" where
  "template_tasks workspace [] = Inr []"
| "template_tasks workspace (t # ts) =
     (case template_entry workspace t of
        Inl e \<Rightarrow> Inl e
      | Inr entry \<Rightarrow>
          (case template_tasks workspace ts of
             Inl e \<Rightarrow> Inl e
           | Inr entries \<Rightarrow> Inr (entry # entries)))"

section \<open>\<^verbatim>\<open>create_project\<close>\<close>

definition normalise_priority :: "string \<Rightarrow> world \<Rightarrow> string \<times> world" where
  "normalise_priority priority w =
     (if priority = [] then (''MEDIUM'', w)
      else if str_upper priority \<notin> set [''ASAP'', ''HIGH'', ''MEDIUM'', ''LOW'']
      then (''MEDIUM'', emit (Print PriorityNotRight) w)
      else (str_upper priority, w))"

text \<open>The due date of the new project: one reading of the clock, and a second one, shifted,
  when the offset is not zero.\<close>

definition project_due_date :: "int \<Rightarrow> world \<Rightarrow> (py_error + datetime) \<times> world" where
  "project_due_date due_date_delta w =
     (case utcnow w of
        (new_date, w1) \<Rightarrow>
          if due_date_delta \<noteq> 0
          then (case utcnow w1 of
                  (now, w2) \<Rightarrow>
                    (case timedelta_days due_date_delta of
                       Inl e \<Rightarrow> (Inl e, w2)
                     | Inr n \<Rightarrow>
                         (case datetime_add_days now n of
                            Inl e \<Rightarrow> (Inl e, w2)
                          | Inr d \<Rightarrow> (Inr d, w2))))
          else (Inr new_date, w1))"

definition create_project :: "json \<Rightarrow> int \<Rightarrow> world \<Rightarrow> (py_error + json option) \<times> world" where
  "create_project workspace due_date_delta w =
     (case py_input w of
        (Inl e, w1) \<Rightarrow> (Inl e, w1)
      | (Inr project_name, w1) \<Rightarrow>
          if project_name = [] then (Inr None, emit (Print ProjectNameEmpty) w1)
          else
            (case py_input w1 of
               (Inl e, w2) \<Rightarrow> (Inl e, w2)
             | (Inr priority_in, w2) \<Rightarrow>
            (case normalise_priority priority_in w2 of
               (priority, w3) \<Rightarrow>
            (case project_due_date due_date_delta w3 of
               (Inl e, w4) \<Rightarrow> (Inl e, w4)
             | (Inr new_date, w4) \<Rightarrow>
            (case subscript workspace ''id'' of
               Inl e \<Rightarrow> (Inl e, w4)
             | Inr wid \<Rightarrow>
            (case post_data projects_url
                    (JObj [(''name'', JStr project_name), (''workspaceId'', wid),
                           (''priority'', JStr priority), (''dueDate'', JStr (iso_z new_date))])
                    w4 of
               (response, w5) \<Rightarrow>
            (case response_has_id response of
               Inl e \<Rightarrow> (Inl e, w5)
             | Inr False \<Rightarrow> (Inr None, emit (Print (ErrorCreatingProject project_name)) w5)
             | Inr True \<Rightarrow>
                 (case response_id response of
                    Inl e \<Rightarrow> (Inl e, w5)
                  | Inr rid \<Rightarrow>
                      (Inr (Some rid),
                       emit (Print (ProjectCreated project_name rid)) w5)))))))))"

section \<open>\<^verbatim>\<open>create_tasks_from_template\<close>: the prompts\<close>

text \<open>The local variables that are fixed before the loop starts.\<close>

record run_params =
  due_date_delta :: int
  project_id :: "json option"
  use_autoschedule :: bool
  selected_schedule :: "json option"

text \<open>\<^verbatim>\<open>not template or "tasks" not in template\<close>\<close>

definition invalid_template :: "json \<Rightarrow> py_error + bool" where
  "invalid_template template =
     (if \<not> truthy template then Inr True
      else (case py_in ''tasks'' template of
              Inl e \<Rightarrow> Inl e
            | Inr b \<Rightarrow> Inr (\<not> b)))"

definition read_due_date_delta :: "world \<Rightarrow> (py_error + int) \<times> world" where
  "read_due_date_delta w =
     (case py_input w of
        (Inl e, w1) \<Rightarrow> (Inl e, w1)
      | (Inr line, w1) \<Rightarrow>
          if line \<noteq> []
          then (case py_int w1 line of
                  Some n \<Rightarrow> (Inr n, w1)
                | None \<Rightarrow> (Inr 0, emit (Print InvalidInputDefaultDueDate) w1))
          else (Inr 0, w1))"

text \<open>\<^verbatim>\<open>input(...).lower() == "y"\<close>\<close>

definition read_yes :: "world \<Rightarrow> (py_error + bool) \<times> world" where
  "read_yes w =
     (case py_input w of
        (Inl e, w1) \<Rightarrow> (Inl e, w1)
      | (Inr line, w1) \<Rightarrow> (Inr (str_lower line = ''y''), w1))"

text \<open>The listing \<^verbatim>\<open>print(f"{i + 1}. {schedule['name']}")\<close> over the schedules.\<close>

fun print_schedule_lines :: "nat \<Rightarrow> json list \<Rightarrow> world \<Rightarrow> py_error option \<times> world" where
  "print_schedule_lines i [] w = (None, w)"
| "print_schedule_lines i (schedule # rest) w =
     (case subscript schedule ''name'' of
        Inl e \<Rightarrow> (Some e, w)
      | Inr name \<Rightarrow> print_schedule_lines (Suc i) rest (emit (Print (ScheduleLine (i + 1) name)) w))"

text \<open>The \<^verbatim>\<open>while True\<close> loop that asks for the number of a schedule. It ends with the
  choice, or with \<^verbatim>\<open>EOFError\<close> when the input is used up.\<close>

function choose_schedule :: "json list \<Rightarrow> world \<Rightarrow> (py_error + json option) \<times> world" where
  "choose_schedule schedules w =
     (case py_input w of
        (Inl e, w1) \<Rightarrow> (Inl e, w1)
      | (Inr schedule_choice, w1) \<Rightarrow>
          if schedule_choice = [] then (Inr None, emit (Print NoScheduleSelected) w1)
          else
            (case py_int w1 schedule_choice of
               None \<Rightarrow> choose_schedule schedules (emit (Print InvalidInputNumber) w1)
             | Some c \<Rightarrow>
                 if c = 0 then (Inr None, w1)
                 else if 1 \<le> c \<and> c \<le> int (length schedules)
                 then (case subscript (schedules ! nat (c - 1)) ''name'' of
                         Inl e \<Rightarrow> (Inl e, w1)
                       | Inr name \<Rightarrow> (Inr (Some name), w1))
                 else choose_schedule schedules (emit (Print InvalidSelection) w1)))"
  by pat_completeness auto
termination
  by (relation "measure (\<lambda>(schedules, w). length (stdin w))")
     (auto simp: py_input_def emit_def split: list.splits)

text \<open>From \<^verbatim>\<open>if schedules:\<close> to the end of the \<^verbatim>\<open>while\<close> loop. Iterating a truthy value
  that is not a list raises in the listing, so the loop runs on a list.\<close>

definition select_schedule :: "json option \<Rightarrow> world \<Rightarrow> (py_error + json option) \<times> world" where
  "select_schedule schedules w =
     (case schedules of
        None \<Rightarrow> (Inr None, w)
      | Some sch \<Rightarrow>
          if \<not> truthy sch then (Inr None, w)
          else
            (case py_iter sch of
               Inl e \<Rightarrow> (Inl e, emit (Print AvailableSchedules) w)
             | Inr xs \<Rightarrow>
                 (case print_schedule_lines 0 xs (emit (Print AvailableSchedules) w) of
                    (Some e, w1) \<Rightarrow> (Inl e, w1)
                  | (None, w1) \<Rightarrow> choose_schedule xs w1)))"

definition gather_run_params :: "json \<Rightarrow> world \<Rightarrow> (py_error + run_params) \<times> world" where
  "gather_run_params workspace w =
     (case read_due_date_delta w of
        (Inl e, w1) \<Rightarrow> (Inl e, w1)
      | (Inr delta, w1) \<Rightarrow>
     (case read_yes w1 of
        (Inl e, w2) \<Rightarrow> (Inl e, w2)
      | (Inr create_new_project, w2) \<Rightarrow>
     (case (if create_new_project then create_project workspace delta w2 else (Inr None, w2)) of
        (Inl e, w3) \<Rightarrow> (Inl e, w3)
      | (Inr pid, w3) \<Rightarrow>
     (case read_yes w3 of
        (Inl e, w4) \<Rightarrow> (Inl e, w4)
      | (Inr autoschedule, w4) \<Rightarrow>
     (case list_schedules w4 of
        (schedules, w5) \<Rightarrow>
     (case select_schedule schedules w5 of
        (Inl e, w6) \<Rightarrow> (Inl e, w6)
      | (Inr selected, w6) \<Rightarrow>
          (Inr \<lparr>due_date_delta = delta, project_id = pid, use_autoschedule = autoschedule,
                 selected_schedule = selected\<rparr>, w6)))))))"

section \<open>\<^verbatim>\<open>create_tasks_from_template\<close>: one task\<close>

text \<open>The \<^verbatim>\<open>try\<close> block: the due date of the entry (or the fixed fallback) is parsed by the
  interpreter's \<^verbatim>\<open>fromisoformat\<close> and shifted; only \<^verbatim>\<open>ValueError\<close> is caught, and then the
  clock is read instead.\<close>

definition compute_due_date :: "json \<Rightarrow> int \<Rightarrow> world \<Rightarrow> (py_error + datetime) \<times> world" where
  "compute_due_date task_data delta w =
     (case dict_get task_data ''dueDate'' (JStr ''2024-12-31T23:59:59Z'') of
        Inl e \<Rightarrow> (Inl e, w)
      | Inr (JStr original_due_date) \<Rightarrow>
          (case fromisoformat w (str_replace ''Z'' ''+00:00'' original_due_date) of
             None \<Rightarrow>
               (case utcnow (emit (Print (InvalidDate original_due_date)) w) of
                  (now, w1) \<Rightarrow> (Inr now, w1))
           | Some parsed \<Rightarrow>
               (case timedelta_days delta of
                  Inl e \<Rightarrow> (Inl e, w)
                | Inr n \<Rightarrow>
                    (case datetime_add_days parsed n of
                       Inl e \<Rightarrow> (Inl e, w)
                     | Inr due_date \<Rightarrow> (Inr due_date, w))))
      | Inr _ \<Rightarrow> (Inl AttributeError, w))"

text \<open>The \<^verbatim>\<open>autoScheduled\<close> entry of the payload, if any.\<close>

definition auto_scheduled :: "run_params \<Rightarrow> world \<Rightarrow> (string \<times> json) list \<times> world" where
  "auto_scheduled p w =
     (if truthy_opt (selected_schedule p)
      then (case utcnow w of
              (now, w1) \<Rightarrow>
                ([(''autoScheduled'',
                   JObj [(''startDate'', JStr (iso_z now)), (''deadlineType'', JStr ''SOFT''),
                         (''schedule'', (case selected_schedule p of Some name \<Rightarrow> name
                                         | None \<Rightarrow> JNull))])], w1))
      else if use_autoschedule p \<and> \<not> truthy_opt (selected_schedule p)
      then (case utcnow w of
              (now, w1) \<Rightarrow>
                ([(''autoScheduled'',
                   JObj [(''startDate'', JStr (iso_z now)), (''deadlineType'', JStr ''SOFT''),
                         (''schedule'', JStr ''Work Hours'')])], w1))
      else ([], w))"

text \<open>The \<^verbatim>\<open>projectId\<close> entry of the payload, if any.\<close>

definition project_entry :: "run_params \<Rightarrow> (string \<times> json) list" where
  "project_entry p =
     (case project_id p of
        None \<Rightarrow> []
      | Some pid \<Rightarrow> if truthy pid then [(''projectId'', pid)] else [])"

definition build_payload ::
  "json \<Rightarrow> run_params \<Rightarrow> json \<Rightarrow> string \<Rightarrow> world \<Rightarrow> (py_error + json) \<times> world" where
  "build_payload workspace p task_data due_date_str w =
     (case subscript task_data ''name'' of
        Inl e \<Rightarrow> (Inl e, w)
      | Inr name \<Rightarrow>
     (case subscript workspace ''id'' of
        Inl e \<Rightarrow> (Inl e, w)
      | Inr wid \<Rightarrow>
     (case dict_get task_data ''duration'' (JInt 30) of
        Inl e \<Rightarrow> (Inl e, w)
      | Inr dur \<Rightarrow>
     (case subscript task_data ''priority'' of
        Inl e \<Rightarrow> (Inl e, w)
      | Inr prio \<Rightarrow>
     (case auto_scheduled p w of
        (block, w1) \<Rightarrow>
          (Inr (JObj ([(''name'', name), (''workspaceId'', wid),
                       (''dueDate'', JStr due_date_str), (''duration'', dur),
                       (''priority'', prio)]
                      @ project_entry p @ block)), w1))))))"

text \<open>What follows the request: one of the two counters goes up.\<close>

definition record_outcome ::
  "json \<Rightarrow> json \<Rightarrow> json option \<Rightarrow> nat \<times> nat \<Rightarrow> world \<Rightarrow> (py_error + nat \<times> nat) \<times> world" where
  "record_outcome task_data post_payload response counts w =
     (case counts of
        (task_successes, task_failures) \<Rightarrow>
     (case response_has_id response of
        Inl e \<Rightarrow> (Inl e, w)
      | Inr True \<Rightarrow>
          (case subscript task_data ''name'' of
             Inl e \<Rightarrow> (Inl e, w)
           | Inr name \<Rightarrow>
               (case response_id response of
                  Inl e \<Rightarrow> (Inl e, w)
                | Inr rid \<Rightarrow>
                    (Inr (task_successes + 1, task_failures),
                     emit (Print (TaskCreated name rid)) w)))
      | Inr False \<Rightarrow>
          (case subscript task_data ''name'' of
             Inl e \<Rightarrow> (Inl e, w)
           | Inr name \<Rightarrow>
               (Inr (task_successes, task_failures + 1),
                emit (Print (PayloadSent post_payload))
                  (emit (Print (ErrorCreatingTask name)) w)))))"

definition DELAY_SECONDS :: nat where
  "DELAY_SECONDS = 8"

text \<open>The body of the \<^verbatim>\<open>for\<close> loop for the entry at index \<open>i\<close> of \<open>n\<close>. An exception
  leaves the counters as they were.\<close>

definition create_task ::
  "json \<Rightarrow> run_params \<Rightarrow> nat \<Rightarrow> nat \<Rightarrow> json \<Rightarrow> nat \<times> nat \<Rightarrow> world
     \<Rightarrow> py_error option \<times> (nat \<times> nat) \<times> world" where
  "create_task workspace p n i task_data counts w =
     (case compute_due_date task_data (due_date_delta p) (emit (Print (CreatingTask (i + 1) n)) w) of
        (Inl e, w1) \<Rightarrow> (Some e, counts, w1)
      | (Inr due_date, w1) \<Rightarrow>
     (case build_payload workspace p task_data (iso_z due_date) w1 of
        (Inl e, w2) \<Rightarrow> (Some e, counts, w2)
      | (Inr post_payload, w2) \<Rightarrow>
     (case post_data tasks_url post_payload w2 of
        (response, w3) \<Rightarrow>
     (case record_outcome task_data post_payload response counts w3 of
        (Inl e, w4) \<Rightarrow> (Some e, counts, w4)
      | (Inr counts', w4) \<Rightarrow> (None, counts', sleep DELAY_SECONDS w4)))))"

section \<open>\<^verbatim>\<open>create_tasks_from_template\<close>: the loop and the function\<close>

fun dispatch_loop ::
  "json \<Rightarrow> run_params \<Rightarrow> nat \<Rightarrow> nat \<Rightarrow> json list \<Rightarrow> nat \<times> nat \<Rightarrow> world
     \<Rightarrow> py_error option \<times> (nat \<times> nat) \<times> world" where
  "dispatch_loop workspace p n i [] counts w = (None, counts, w)"
| "dispatch_loop workspace p n i (task_data # rest) counts w =
     (case create_task workspace p n i task_data counts w of
        (Some e, counts', w') \<Rightarrow> (Some e, counts', w')
      | (None, counts', w') \<Rightarrow> dispatch_loop workspace p n (Suc i) rest counts' w')"

definition create_tasks_from_template :: "json \<Rightarrow> json \<Rightarrow> world \<Rightarrow> py_error option \<times> world" where
  "create_tasks_from_template workspace template w =
     (case invalid_template template of
        Inl e \<Rightarrow> (Some e, w)
      | Inr True \<Rightarrow> (None, emit (Print InvalidTemplateFormat) w)
      | Inr False \<Rightarrow>
          (case gather_run_params workspace w of
             (Inl e, w1) \<Rightarrow> (Some e, w1)
           | (Inr p, w1) \<Rightarrow>
          (case subscript template ''tasks'' of
             Inl e \<Rightarrow> (Some e, w1)
           | Inr tasks \<Rightarrow>
          (case py_iter tasks of
             Inl e \<Rightarrow> (Some e, w1)
           | Inr specs \<Rightarrow>
          (case dispatch_loop workspace p (length specs) 0 specs (0, 0) w1 of
             (Some e, counts, w2) \<Rightarrow> (Some e, w2)
           | (None, (task_successes, task_failures), w2) \<Rightarrow>
               (None, emit (Print (Completed task_successes (length specs) task_failures))
                        w2))))))"

text \<open>The replay branch of \<^verbatim>\<open>main_menu\<close>: \<^verbatim>\<open>load_template\<close> gives \<^verbatim>\<open>None\<close> for a file that
  is missing, unreadable or not JSON, and the function is called only on a truthy
  template.\<close>

definition replay :: "json \<Rightarrow> json option \<Rightarrow> world \<Rightarrow> py_error option \<times> world" where
  "replay workspace loaded w =
     (case loaded of
        None \<Rightarrow> (None, w)
      | Some template \<Rightarrow>
          if truthy template then create_tasks_from_template workspace template w
          else (None, w))"

section \<open>Observing a run\<close>

text \<open>What a run does to the outside, apart from printing: its requests and its pauses.\<close>

fun is_print :: "event \<Rightarrow> bool" where
  "is_print (Print m) = True"
| "is_print (HttpGet u) = False"
| "is_print (HttpPost u p) = False"
| "is_print (Sleep n) = False"

definition actions :: "world \<Rightarrow> event list" where
  "actions w = filter (\<lambda>e. \<not> is_print e) (trace w)"

text \<open>The payloads sent to the task endpoint.\<close>

fun task_posts :: "event list \<Rightarrow> json list" where
  "task_posts [] = []"
| "task_posts (HttpPost u pl # es) = (if u = tasks_url then pl # task_posts es else task_posts es)"
| "task_posts (Print m # es) = task_posts es"
| "task_posts (HttpGet u # es) = task_posts es"
| "task_posts (Sleep n # es) = task_posts es"

text \<open>The requests and pauses of a loop that sends the payloads \<open>pls\<close>: each request is
  followed by the pause.\<close>

definition submissions :: "json list \<Rightarrow> event list" where
  "submissions pls = concat (map (\<lambda>pl. [HttpPost tasks_url pl, Sleep DELAY_SECONDS]) pls)"

text \<open>The value \<^verbatim>\<open>datetime.utcnow()\<close> returns at the \<open>k\<close>-th reading of the clock.\<close>

definition reading :: "world \<Rightarrow> nat \<Rightarrow> datetime" where
  "reading w k = (clock w k)\<lparr>tzinfo := None\<rparr>"

text \<open>The two conditions of the \<^verbatim>\<open>if\<close>/\<^verbatim>\<open>elif\<close> on the schedule, the name they put into the
  block, and the block for a given reading of the clock.\<close>

definition scheduled :: "run_params \<Rightarrow> bool" where
  "scheduled p = (truthy_opt (selected_schedule p) \<or> use_autoschedule p)"

definition schedule_name :: "run_params \<Rightarrow> json" where
  "schedule_name p =
     (if truthy_opt (selected_schedule p)
      then (case selected_schedule p of Some name \<Rightarrow> name | None \<Rightarrow> JNull)
      else JStr ''Work Hours'')"

definition sched_block :: "run_params \<Rightarrow> datetime \<Rightarrow> (string \<times> json) list" where
  "sched_block p now =
     (if scheduled p
      then [(''autoScheduled'',
             JObj [(''startDate'', JStr (iso_z now)), (''deadlineType'', JStr ''SOFT''),
                   (''schedule'', schedule_name p)])]
      else [])"

text \<open>\<open>pl\<close> is the payload of the entry \<open>t\<close> with the due date string \<open>dstr\<close> and the
  clock reading \<open>now\<close> for \<^verbatim>\<open>startDate\<close>.\<close>

definition payload_of ::
  "json \<Rightarrow> run_params \<Rightarrow> json \<Rightarrow> string \<Rightarrow> datetime \<Rightarrow> json \<Rightarrow> bool" where
  "payload_of ws p t dstr now pl =
     (\<exists>nm wid dur pr.
         subscript t ''name'' = Inr nm \<and> subscript ws ''id'' = Inr wid
       \<and> dict_get t ''duration'' (JInt 30) = Inr dur \<and> subscript t ''priority'' = Inr pr
       \<and> pl = JObj ([(''name'', nm), (''workspaceId'', wid), (''dueDate'', JStr dstr),
                     (''duration'', dur), (''priority'', pr)]
                    @ project_entry p @ sched_block p now))"

section \<open>Auxiliary notions for the proofs\<close>


text \<open>The point in time a \<^verbatim>\<open>datetime\<close> denotes, in microseconds since 0001-01-01T00:00:00 UTC
  (counting the ordinal 1 as day 1); a naive value is read as UTC.\<close>

definition timestamp :: "datetime \<Rightarrow> int" where
  "timestamp dt =
     (int (toordinal dt) * 86400 + int (hour dt) * 3600 + int (minute dt) * 60 + int (second dt))
       * 1000000
     + int (microsecond dt)
     - (case tzinfo dt of None \<Rightarrow> 0 | Some off \<Rightarrow> off)"

text \<open>Conditions under which the body of the loop raises nothing: the entry is an object
  with a name and a priority, its due date is absent or a string, and a due date that the
  interpreter's \<^verbatim>\<open>fromisoformat\<close> (here \<open>parse\<close>) accepts stays in the range of \<^verbatim>\<open>datetime\<close>
  when shifted; the response to the request is a JSON object, unless the request fails.\<close>

definition has_key :: "json \<Rightarrow> string \<Rightarrow> bool" where
  "has_key j k = (case subscript j k of Inl e \<Rightarrow> False | Inr v \<Rightarrow> True)"




text \<open>The \<^verbatim>\<open>startDate\<close> of a payload, if it has an \<^verbatim>\<open>autoScheduled\<close> block.\<close>

definition start_date :: "json \<Rightarrow> json option" where
  "start_date pl =
     (case subscript pl ''autoScheduled'' of
        Inl e \<Rightarrow> None
      | Inr block \<Rightarrow> (case subscript block ''startDate'' of Inl e \<Rightarrow> None | Inr v \<Rightarrow> Some v))"

section \<open>A sample run\<close>

text \<open>The numbers typed in the sample sessions are an optional sign and ASCII decimal digits,
  which \<^verbatim>\<open>int\<close> reads as follows. The sample worlds use this reader and the parser
  \<open>fromisoformat_37\<close> as the two library functions: on the lines typed and on the due dates of
  the samples they return what the interpreter returns, whatever its version (from Python 3.7 on,
  where \<^verbatim>\<open>fromisoformat\<close> was introduced).\<close>

definition decimal_int :: "string \<Rightarrow> int option" where
  "decimal_int s =
     (case s of
        [] \<Rightarrow> None
      | c # cs \<Rightarrow>
          if c = CHR ''-'' then map_option (\<lambda>n. - int n) (parse_digits cs)
          else if c = CHR ''+'' then map_option int (parse_digits cs)
          else map_option int (parse_digits (c # cs)))"

definition demo_workspace :: json where
  "demo_workspace = JObj [(''id'', JStr ''ws1''), (''name'', JStr ''Home'')]"

definition demo_specs :: "json list" where
  "demo_specs =
     [JObj [(''name'', JStr ''a''), (''dueDate'', JStr ''2024-12-31T23:59:59Z''),
            (''priority'', JStr ''HIGH'')],
      JObj [(''name'', JStr ''b''), (''dueDate'', JStr ''not-a-date''),
            (''priority'', JStr ''LOW'')]]"

definition demo_params :: run_params where
  "demo_params = \<lparr>due_date_delta = 3, project_id = None, use_autoschedule = False,
                   selected_schedule = None\<rparr>"

definition demo_clock :: "nat \<Rightarrow> datetime" where
  "demo_clock k = \<lparr>year = 2025, month = 1, day = 1, hour = 12, minute = 0, second = k,
                   microsecond = 0, tzinfo = None\<rparr>"

text \<open>The first request succeeds, every later one fails.\<close>

definition demo_world :: world where
  "demo_world =
     \<lparr>stdin = [],
      replies = (\<lambda>k. if k = 0 then Some (JObj [(''id'', JStr ''t1'')]) else None),
      requests = 0, clock = demo_clock, ticks = 0, trace = [],
      py_int = decimal_int, fromisoformat = fromisoformat_37\<rparr>"

text \<open>A run with a selected schedule and the flag set; a template whose entry has no
  name, and a session in which the prompts are answered with the defaults and every request
  fails.\<close>

definition night_params :: run_params where
  "night_params = \<lparr>due_date_delta = 0, project_id = None, use_autoschedule = True,
                    selected_schedule = Some (JStr ''Night Shift'')\<rparr>"

definition nameless_template :: json where
  "nameless_template = JObj [(''tasks'', JList [JObj [(''priority'', JStr ''HIGH'')]])]"

definition quiet_world :: world where
  "quiet_world =
     \<lparr>stdin = ['''', ''n'', ''n''], replies = (\<lambda>k. None), requests = 0, clock = demo_clock,
      ticks = 0, trace = [], py_int = decimal_int, fromisoformat = fromisoformat_37\<rparr>"

text \<open>The template of the sample entries.\<close>

definition demo_template :: json where
  "demo_template = JObj [(''tasks'', JList demo_specs)]"


text \<open>A template with no entries.\<close>

definition empty_template :: json where
  "empty_template = JObj [(''tasks'', JList [])]"

text \<open>The user asks for a new project named \<^verbatim>\<open>Plan\<close>, which the service creates; the
  schedules cannot be listed.\<close>

definition planner_session :: world where
  "planner_session =
     \<lparr>stdin = [''0'', ''y'', ''Plan'', '''', ''n''],
      replies = (\<lambda>k. if k = 0 then Some (JObj [(''id'', JStr ''p1'')]) else None),
      requests = 0, clock = demo_clock, ticks = 0, trace = [],
      py_int = decimal_int, fromisoformat = fromisoformat_37\<rparr>"

text \<open>Entries whose due date does not parse, has no UTC designator, or has another offset.\<close>

definition odd_date_specs :: "json list" where
  "odd_date_specs =
     [JObj [(''name'', JStr ''a''), (''dueDate'', JStr ''not-a-date''), (''priority'', JStr ''LOW'')],
      JObj [(''name'', JStr ''b''), (''dueDate'', JStr ''2024-12-31T23:59:59''),
            (''priority'', JStr ''LOW'')],
      JObj [(''name'', JStr ''c''), (''dueDate'', JStr ''2024-12-31T23:59:59+05:30''),
            (''priority'', JStr ''LOW'')]]"

text \<open>A service that answers every request with the JSON value \<^verbatim>\<open>true\<close>, and one that
  answers with the JSON string \<^verbatim>\<open>"invalid"\<close>.\<close>

definition true_reply_world :: world where
  "true_reply_world = demo_world\<lparr>replies := (\<lambda>k. Some (JBool True))\<rparr>"

definition text_reply_world :: world where
  "text_reply_world = demo_world\<lparr>replies := (\<lambda>k. Some (JStr ''invalid''))\<rparr>"

text \<open>A session in which the service lists one schedule, whose name is the empty string,
  and the user selects it; autoscheduling is declined in the first session and asked for in the
  second. Every request to the task endpoint fails.\<close>

definition blank_schedule_session :: world where
  "blank_schedule_session =
     \<lparr>stdin = ['''', ''n'', ''n'', ''1''],
      replies = (\<lambda>k. if k = 0 then Some (JList [JObj [(''name'', JStr [])]]) else None),
      requests = 0, clock = demo_clock, ticks = 0, trace = [],
      py_int = decimal_int, fromisoformat = fromisoformat_37\<rparr>"

definition blank_schedule_flag_session :: world where
  "blank_schedule_flag_session = blank_schedule_session\<lparr>stdin := ['''', ''n'', ''y'', ''1'']\<rparr>"

text \<open>A system clock that is set back by 20 seconds between two readings.\<close>

definition backwards_clock :: "nat \<Rightarrow> datetime" where
  "backwards_clock k = \<lparr>year = 2025, month = 1, day = 1, hour = 12, minute = 0,
                        second = 50 - 20 * k, microsecond = 0, tzinfo = None\<rparr>"

definition backwards_world :: world where
  "backwards_world = demo_world\<lparr>clock := backwards_clock\<rparr>"

text \<open>Two entries with a due date that every version of the library parses.\<close>

definition plain_specs :: "json list" where
  "plain_specs =
     [JObj [(''name'', JStr ''a''), (''dueDate'', JStr ''2024-12-31T23:59:59Z''),
            (''priority'', JStr ''HIGH'')],
      JObj [(''name'', JStr ''b''), (''dueDate'', JStr ''2024-12-31T23:59:59Z''),
            (''priority'', JStr ''LOW'')]]"




text \<open>A run with the autoschedule flag and no selected schedule.\<close>

definition flag_params :: run_params where
  "flag_params = demo_params\<lparr>use_autoschedule := True\<rparr>"

section \<open>Facts about the library functions and the world\<close>

lemmas eval_simps =
  demo_workspace_def demo_specs_def demo_params_def demo_clock_def demo_world_def
  create_task_def compute_due_date_def build_payload_def auto_scheduled_def project_entry_def
  record_outcome_def post_data_def response_has_id_def response_id_def truthy_opt_def
  emit_def utcnow_def sleep_def iso_z_def
  fromisoformat_37_def parse_isoformat_date_def parse_isoformat_time_def parse_hh_mm_ss_ff_def
  parse_digits_def digit_val_def digit_table_def new_datetime_def valid_datetime_def
  days_in_month_def is_leap_def DAYS_IN_MONTH_def is_sign_def
  timedelta_days_def datetime_add_days_def toordinal_def ymd2ord_def ord2ymd_def
  days_before_year_def days_before_month_def DAYS_BEFORE_MONTH_def MAXORDINAL_def
  isoformat_def format_time_def format_offset_def zero_pad_def dec_digits.simps digit_char_def
  Let_def

lemma emit_fields [simp]:
  "trace (emit e w) = trace w @ [e]" "stdin (emit e w) = stdin w" "replies (emit e w) = replies w"
  "requests (emit e w) = requests w" "clock (emit e w) = clock w" "ticks (emit e w) = ticks w"
  "py_int (emit e w) = py_int w" "fromisoformat (emit e w) = fromisoformat w"
  by (simp_all add: emit_def)

lemma actions_emit [simp]:
  "actions (emit e w) = (if is_print e then actions w else actions w @ [e])"
  by (simp add: actions_def)

lemma actions_upd [simp]:
  "actions (w\<lparr>ticks := t\<rparr>) = actions w" "actions (w\<lparr>requests := r\<rparr>) = actions w"
  "actions (w\<lparr>stdin := i\<rparr>) = actions w"
  by (simp_all add: actions_def)

lemma reading_upd [simp]:
  "reading (emit e w) = reading w" "reading (w\<lparr>ticks := t\<rparr>) = reading w"
  "reading (w\<lparr>requests := r\<rparr>) = reading w" "reading (w\<lparr>stdin := i\<rparr>) = reading w"
  by (simp_all add: reading_def fun_eq_iff)

lemma utcnow_eq: "utcnow w = (reading w (ticks w), w\<lparr>ticks := Suc (ticks w)\<rparr>)"
  by (simp add: utcnow_def reading_def)

lemma auto_scheduled_eq:
  "auto_scheduled p w =
     (sched_block p (reading w (ticks w)), if scheduled p then w\<lparr>ticks := Suc (ticks w)\<rparr> else w)"
  by (auto simp: auto_scheduled_def sched_block_def scheduled_def schedule_name_def utcnow_eq)

lemma compute_due_date_frame:
  assumes "compute_due_date t d w = (r, w1)"
  shows "actions w1 = actions w \<and> reading w1 = reading w \<and> replies w1 = replies w
         \<and> requests w1 = requests w \<and> ticks w \<le> ticks w1 \<and> stdin w1 = stdin w
         \<and> fromisoformat w1 = fromisoformat w"
  using assms
  by (auto simp: compute_due_date_def utcnow_eq split: sum.splits json.splits option.splits)

lemma build_payload_Inr:
  assumes "build_payload ws p t dstr w = (Inr pl, w1)"
  shows "\<exists>nm wid dur pr.
           subscript t ''name'' = Inr nm \<and> subscript ws ''id'' = Inr wid
         \<and> dict_get t ''duration'' (JInt 30) = Inr dur \<and> subscript t ''priority'' = Inr pr
         \<and> pl = JObj ([(''name'', nm), (''workspaceId'', wid), (''dueDate'', JStr dstr),
                       (''duration'', dur), (''priority'', pr)]
                      @ project_entry p @ sched_block p (reading w (ticks w)))
         \<and> w1 = (if scheduled p then w\<lparr>ticks := Suc (ticks w)\<rparr> else w)"
  using assms
  by (auto simp: build_payload_def auto_scheduled_eq split: sum.splits)

lemma build_payload_Inl:
  assumes "build_payload ws p t dstr w = (Inl e, w1)"
  shows "w1 = w"
  using assms
  by (auto simp: build_payload_def auto_scheduled_eq split: sum.splits)

lemma post_data_frame:
  assumes "post_data url pl w = (r, w1)"
  shows "actions w1 = actions w @ [HttpPost url pl] \<and> reading w1 = reading w \<and> replies w1 = replies w
         \<and> requests w1 = Suc (requests w) \<and> ticks w1 = ticks w \<and> stdin w1 = stdin w \<and> r = replies w (requests w)
         \<and> fromisoformat w1 = fromisoformat w"
  using assms
  by (auto simp: post_data_def Let_def split: option.splits)

lemma record_outcome_frame:
  assumes "record_outcome t pl r c w = (res, w1)"
  shows "actions w1 = actions w \<and> reading w1 = reading w \<and> replies w1 = replies w
         \<and> requests w1 = requests w \<and> ticks w1 = ticks w \<and> stdin w1 = stdin w
         \<and> fromisoformat w1 = fromisoformat w"
  using assms
  by (auto simp: record_outcome_def split: sum.splits prod.splits bool.splits)

lemma record_outcome_counts:
  assumes "record_outcome t pl r (s, f) w = (Inr c', w1)"
  shows "c' = (s + 1, f) \<or> c' = (s, f + 1)"
  using assms
  by (auto simp: record_outcome_def split: sum.splits prod.splits bool.splits)

lemma create_task_None:
  assumes "create_task ws p n i t (s, f) w = (None, c', w')"
  shows "\<exists>nm wid dur pr dstr k.
           subscript t ''name'' = Inr nm \<and> subscript ws ''id'' = Inr wid
         \<and> dict_get t ''duration'' (JInt 30) = Inr dur \<and> subscript t ''priority'' = Inr pr
         \<and> actions w' = actions w @
               [HttpPost tasks_url
                  (JObj ([(''name'', nm), (''workspaceId'', wid), (''dueDate'', JStr dstr),
                          (''duration'', dur), (''priority'', pr)]
                         @ project_entry p @ sched_block p (reading w k))),
                Sleep DELAY_SECONDS]
         \<and> ticks w \<le> k \<and> (scheduled p \<longrightarrow> k < ticks w') \<and> ticks w \<le> ticks w'
         \<and> (c' = (s + 1, f) \<or> c' = (s, f + 1))
         \<and> reading w' = reading w \<and> replies w' = replies w \<and> stdin w' = stdin w
         \<and> fromisoformat w' = fromisoformat w"
proof -
  from assms obtain due w1 pl w2 r w3 w4 where
    a: "compute_due_date t (due_date_delta p) (emit (Print (CreatingTask (i + 1) n)) w) = (Inr due, w1)"
    and b: "build_payload ws p t (iso_z due) w1 = (Inr pl, w2)"
    and c: "post_data tasks_url pl w2 = (r, w3)"
    and d: "record_outcome t pl r (s, f) w3 = (Inr c', w4)"
    and e: "w' = sleep DELAY_SECONDS w4"
    by (auto simp: create_task_def split: sum.splits prod.splits)
  note fa = compute_due_date_frame[OF a]
  note fb = build_payload_Inr[OF b]
  note fc = post_data_frame[OF c]
  note fd = record_outcome_frame[OF d]
  note cd = record_outcome_counts[OF d]
  from fb obtain nm wid dur pr where
    f1: "subscript t ''name'' = Inr nm" "subscript ws ''id'' = Inr wid"
        "dict_get t ''duration'' (JInt 30) = Inr dur" "subscript t ''priority'' = Inr pr"
    and f2: "pl = JObj ([(''name'', nm), (''workspaceId'', wid), (''dueDate'', JStr (iso_z due)),
                       (''duration'', dur), (''priority'', pr)]
                      @ project_entry p @ sched_block p (reading w1 (ticks w1)))"
    and f3: "w2 = (if scheduled p then w1\<lparr>ticks := Suc (ticks w1)\<rparr> else w1)"
    by blast
  have g1: "actions w' = actions w @ [HttpPost tasks_url pl, Sleep DELAY_SECONDS]"
    using fa fc fd e f3 by (simp add: sleep_def)
  have g2: "reading w1 = reading w" using fa by simp
  have g3: "ticks w \<le> ticks w1" using fa by simp
  have g4: "scheduled p \<longrightarrow> ticks w1 < ticks w'" using fc fd e f3 by (simp add: sleep_def)
  have g5: "ticks w \<le> ticks w'" using fa fc fd e f3 by (simp add: sleep_def split: if_splits)
  have g6: "reading w' = reading w \<and> replies w' = replies w \<and> stdin w' = stdin w
            \<and> fromisoformat w' = fromisoformat w"
    using fa fc fd e f3 by (simp add: sleep_def split: if_splits)
  show ?thesis
    using f1 f2 g1 g2 g3 g4 g5 g6 cd by (intro exI[of _ nm] exI[of _ wid] exI[of _ dur] exI[of _ pr] exI[of _ "iso_z due"] exI[of _ "ticks w1"]) simp
qed


lemma create_task_Some:
  assumes "create_task ws p n i t c w = (Some e, c', w')"
  shows "c' = c \<and> ticks w \<le> ticks w' \<and> reading w' = reading w \<and> replies w' = replies w
         \<and> fromisoformat w' = fromisoformat w
         \<and> (actions w' = actions w
            \<or> (\<exists>pl dstr k. actions w' = actions w @ [HttpPost tasks_url pl]
                  \<and> payload_of ws p t dstr (reading w k) pl
                  \<and> ticks w \<le> k \<and> (scheduled p \<longrightarrow> k < ticks w')))"
proof -
  let ?w0 = "emit (Print (CreatingTask (i + 1) n)) w"
  obtain r1 w1 where a: "compute_due_date t (due_date_delta p) ?w0 = (r1, w1)"
    by (cases "compute_due_date t (due_date_delta p) ?w0")
  note fa = compute_due_date_frame[OF a]
  show ?thesis
  proof (cases r1)
    case (Inl e1)
    with assms a fa show ?thesis by (simp add: create_task_def)
  next
    case (Inr due)
    obtain r2 w2 where b: "build_payload ws p t (iso_z due) w1 = (r2, w2)"
      by (cases "build_payload ws p t (iso_z due) w1")
    show ?thesis
    proof (cases r2)
      case (Inl e2)
      with b have "w2 = w1" by (simp add: build_payload_Inl)
      with assms a b Inr Inl fa show ?thesis by (simp add: create_task_def)
    next
      case (Inr pl)
      note fb = build_payload_Inr[OF b[unfolded Inr]]
      obtain r w3 where c: "post_data tasks_url pl w2 = (r, w3)"
        by (cases "post_data tasks_url pl w2")
      note fc = post_data_frame[OF c]
      obtain r4 w4 where d: "record_outcome t pl r c w3 = (r4, w4)"
        by (cases "record_outcome t pl r c w3")
      note fd = record_outcome_frame[OF d]
      from assms a b c d \<open>r1 = Inr due\<close> Inr have "c' = c \<and> w' = w4"
        by (auto simp: create_task_def split: sum.splits)
      moreover have "actions w4 = actions w @ [HttpPost tasks_url pl]"
        using fa fb fc fd by (auto split: if_splits)
      moreover have "ticks w \<le> ticks w4 \<and> reading w4 = reading w \<and> replies w4 = replies w
                     \<and> fromisoformat w4 = fromisoformat w"
        using fa fb fc fd by (auto split: if_splits)
      moreover have "payload_of ws p t (iso_z due) (reading w (ticks w1)) pl"
        using fb fa unfolding payload_of_def by auto
      moreover have "ticks w \<le> ticks w1" using fa by simp
      moreover have "scheduled p \<longrightarrow> ticks w1 < ticks w4"
        using fb fc fd by (auto split: if_splits)
      ultimately show ?thesis by blast
    qed
  qed
qed

lemma submissions_simps [simp]:
  "submissions [] = []"
  "submissions (pl # pls) = HttpPost tasks_url pl # Sleep DELAY_SECONDS # submissions pls"
  "submissions (pls @ qls) = submissions pls @ submissions qls"
  by (simp_all add: submissions_def)

lemma dispatch_loop_None:
  assumes "dispatch_loop ws p n i specs (s, f) w = (None, (s', f'), w')"
  shows "\<exists>pls ks.
           length pls = length specs \<and> length ks = length specs
         \<and> actions w' = actions w @ submissions pls
         \<and> s' + f' = s + f + length specs
         \<and> (\<forall>j < length specs. \<exists>dstr. payload_of ws p (specs ! j) dstr (reading w (ks ! j)) (pls ! j))
         \<and> (\<forall>k \<in> set ks. ticks w \<le> k \<and> (scheduled p \<longrightarrow> k < ticks w'))
         \<and> (scheduled p \<longrightarrow> sorted_wrt (<) ks)
         \<and> ticks w \<le> ticks w' \<and> reading w' = reading w \<and> replies w' = replies w"
  using assms
proof (induction specs arbitrary: i s f w)
  case Nil
  then show ?case by simp
next
  case (Cons t rest)
  from Cons.prems obtain c1 w1 where
    st: "create_task ws p n i t (s, f) w = (None, c1, w1)"
    and lp: "dispatch_loop ws p n (Suc i) rest c1 w1 = (None, (s', f'), w')"
    by (auto split: prod.splits option.splits)
  obtain s1 f1 where c1: "c1 = (s1, f1)" by (cases c1)
  from create_task_None[OF st] obtain nm wid dur pr dstr k where
    h: "subscript t ''name'' = Inr nm" "subscript ws ''id'' = Inr wid"
       "dict_get t ''duration'' (JInt 30) = Inr dur" "subscript t ''priority'' = Inr pr"
    and ha: "actions w1 = actions w @
               [HttpPost tasks_url
                  (JObj ([(''name'', nm), (''workspaceId'', wid), (''dueDate'', JStr dstr),
                          (''duration'', dur), (''priority'', pr)]
                         @ project_entry p @ sched_block p (reading w k))),
                Sleep DELAY_SECONDS]"
    and hk: "ticks w \<le> k" "scheduled p \<longrightarrow> k < ticks w1" "ticks w \<le> ticks w1"
    and hc: "c1 = (s + 1, f) \<or> c1 = (s, f + 1)"
    and hf: "reading w1 = reading w" "replies w1 = replies w"
    by blast
  define pl where "pl = JObj ([(''name'', nm), (''workspaceId'', wid), (''dueDate'', JStr dstr),
                          (''duration'', dur), (''priority'', pr)]
                         @ project_entry p @ sched_block p (reading w k))"
  have pof: "payload_of ws p t dstr (reading w k) pl"
    using h by (auto simp: payload_of_def pl_def)
  from Cons.IH[OF lp[unfolded c1]] obtain pls ks where
    ih: "length pls = length rest" "length ks = length rest"
        "actions w' = actions w1 @ submissions pls"
        "s' + f' = s1 + f1 + length rest"
        "\<forall>j < length rest. \<exists>dstr. payload_of ws p (rest ! j) dstr (reading w1 (ks ! j)) (pls ! j)"
        "\<forall>k \<in> set ks. ticks w1 \<le> k \<and> (scheduled p \<longrightarrow> k < ticks w')"
        "scheduled p \<longrightarrow> sorted_wrt (<) ks"
        "ticks w1 \<le> ticks w'" "reading w' = reading w1" "replies w' = replies w1"
    by blast
  have 1: "length (pl # pls) = length (t # rest) \<and> length (k # ks) = length (t # rest)"
    using ih by simp
  have 2: "actions w' = actions w @ submissions (pl # pls)"
    using ih ha by (simp add: pl_def)
  have 3: "s' + f' = s + f + length (t # rest)"
    using ih hc c1 by auto
  have 4: "\<forall>j < length (t # rest). \<exists>dstr. payload_of ws p ((t # rest) ! j) dstr (reading w ((k # ks) ! j)) ((pl # pls) ! j)"
  proof (intro allI impI)
    fix j assume "j < length (t # rest)"
    then show "\<exists>dstr. payload_of ws p ((t # rest) ! j) dstr (reading w ((k # ks) ! j)) ((pl # pls) ! j)"
      using pof ih(5) hf by (cases j) auto
  qed
  have 5: "\<forall>k' \<in> set (k # ks). ticks w \<le> k' \<and> (scheduled p \<longrightarrow> k' < ticks w')"
    using ih(6) ih(8) hk by auto
  have 6: "scheduled p \<longrightarrow> sorted_wrt (<) (k # ks)"
    using ih(6) ih(7) hk by auto
  have 7: "ticks w \<le> ticks w' \<and> reading w' = reading w \<and> replies w' = replies w"
    using ih hk hf by simp
  show ?case
    using 1 2 3 4 5 6 7 by (intro exI[of _ "pl # pls"] exI[of _ "k # ks"]) blast
qed

lemma dispatch_loop_Some:
  assumes "dispatch_loop ws p n i specs (s, f) w = (Some e, (s', f'), w')"
  shows "\<exists>pls ks.
           length pls < length specs \<and> length ks = length pls
         \<and> s' + f' = s + f + length pls
         \<and> (\<forall>j < length pls. \<exists>dstr. payload_of ws p (specs ! j) dstr (reading w (ks ! j)) (pls ! j))
         \<and> (\<forall>k \<in> set ks. ticks w \<le> k)
         \<and> (scheduled p \<longrightarrow> sorted_wrt (<) ks)
         \<and> (actions w' = actions w @ submissions pls
            \<or> (\<exists>pl dstr k. actions w' = actions w @ submissions pls @ [HttpPost tasks_url pl]
                  \<and> payload_of ws p (specs ! length pls) dstr (reading w k) pl
                  \<and> ticks w \<le> k \<and> (scheduled p \<longrightarrow> (\<forall>k' \<in> set ks. k' < k))))"
  using assms
proof (induction specs arbitrary: i s f w)
  case Nil
  then show ?case by simp
next
  case (Cons t rest)
  obtain r c1 w1 where st: "create_task ws p n i t (s, f) w = (r, c1, w1)"
    by (cases "create_task ws p n i t (s, f) w")
  show ?case
  proof (cases r)
    case (Some e1)
    with st Cons.prems have eq: "e1 = e" "c1 = (s', f')" "w1 = w'" by auto
    from create_task_Some[OF st[unfolded Some]] eq
    have c: "(s', f') = (s, f)"
      and a: "actions w' = actions w
            \<or> (\<exists>pl dstr k. actions w' = actions w @ [HttpPost tasks_url pl]
                  \<and> payload_of ws p t dstr (reading w k) pl
                  \<and> ticks w \<le> k \<and> (scheduled p \<longrightarrow> k < ticks w'))"
      by auto
    from a have "actions w' = actions w @ submissions []
            \<or> (\<exists>pl dstr k. actions w' = actions w @ submissions [] @ [HttpPost tasks_url pl]
                  \<and> payload_of ws p ((t # rest) ! length ([]::json list)) dstr (reading w k) pl
                  \<and> ticks w \<le> k \<and> (scheduled p \<longrightarrow> (\<forall>k' \<in> set ([]::nat list). k' < k)))"
      by auto
    with c show ?thesis
      by (intro exI[of _ "[]"]) auto
  next
    case None
    obtain s1 f1 where c1: "c1 = (s1, f1)" by (cases c1)
    from st None Cons.prems c1 have lp: "dispatch_loop ws p n (Suc i) rest (s1, f1) w1 = (Some e, (s', f'), w')"
      by simp
    from create_task_None[OF st[unfolded None c1]] obtain nm wid dur pr dstr k0 where
      h: "subscript t ''name'' = Inr nm" "subscript ws ''id'' = Inr wid"
         "dict_get t ''duration'' (JInt 30) = Inr dur" "subscript t ''priority'' = Inr pr"
      and ha: "actions w1 = actions w @
               [HttpPost tasks_url
                  (JObj ([(''name'', nm), (''workspaceId'', wid), (''dueDate'', JStr dstr),
                          (''duration'', dur), (''priority'', pr)]
                         @ project_entry p @ sched_block p (reading w k0))),
                Sleep DELAY_SECONDS]"
      and hk: "ticks w \<le> k0" "scheduled p \<longrightarrow> k0 < ticks w1" "ticks w \<le> ticks w1"
      and hc: "(s1, f1) = (s + 1, f) \<or> (s1, f1) = (s, f + 1)"
      and hf: "reading w1 = reading w"
      by blast
    define pl0 where "pl0 = JObj ([(''name'', nm), (''workspaceId'', wid), (''dueDate'', JStr dstr),
                          (''duration'', dur), (''priority'', pr)]
                         @ project_entry p @ sched_block p (reading w k0))"
    have pof: "payload_of ws p t dstr (reading w k0) pl0"
      using h by (auto simp: payload_of_def pl0_def)
    from Cons.IH[OF lp] obtain pls ks where
      ih: "length pls < length rest" "length ks = length pls"
          "s' + f' = s1 + f1 + length pls"
          "\<forall>j < length pls. \<exists>dstr. payload_of ws p (rest ! j) dstr (reading w1 (ks ! j)) (pls ! j)"
          "\<forall>k \<in> set ks. ticks w1 \<le> k"
          "scheduled p \<longrightarrow> sorted_wrt (<) ks"
      and ia: "actions w' = actions w1 @ submissions pls
            \<or> (\<exists>pl dstr k. actions w' = actions w1 @ submissions pls @ [HttpPost tasks_url pl]
                  \<and> payload_of ws p (rest ! length pls) dstr (reading w1 k) pl
                  \<and> ticks w1 \<le> k \<and> (scheduled p \<longrightarrow> (\<forall>k' \<in> set ks. k' < k)))"
      by blast
    have 1: "length (pl0 # pls) < length (t # rest) \<and> length (k0 # ks) = length (pl0 # pls)"
      using ih by simp
    have 2: "s' + f' = s + f + length (pl0 # pls)"
      using ih hc by auto
    have 3: "\<forall>j < length (pl0 # pls).
               \<exists>dstr. payload_of ws p ((t # rest) ! j) dstr (reading w ((k0 # ks) ! j)) ((pl0 # pls) ! j)"
    proof (intro allI impI)
      fix j assume "j < length (pl0 # pls)"
      then show "\<exists>dstr. payload_of ws p ((t # rest) ! j) dstr (reading w ((k0 # ks) ! j)) ((pl0 # pls) ! j)"
        using pof ih(4) hf by (cases j) auto
    qed
    have 4: "\<forall>k \<in> set (k0 # ks). ticks w \<le> k"
      using ih(5) hk by auto
    have 5: "scheduled p \<longrightarrow> sorted_wrt (<) (k0 # ks)"
      using ih(5) ih(6) hk by auto
    have 6: "actions w' = actions w @ submissions (pl0 # pls)
            \<or> (\<exists>pl dstr k. actions w' = actions w @ submissions (pl0 # pls) @ [HttpPost tasks_url pl]
                  \<and> payload_of ws p ((t # rest) ! length (pl0 # pls)) dstr (reading w k) pl
                  \<and> ticks w \<le> k \<and> (scheduled p \<longrightarrow> (\<forall>k' \<in> set (k0 # ks). k' < k)))"
      using ia
    proof
      assume "actions w' = actions w1 @ submissions pls"
      then show ?thesis using ha by (simp add: pl0_def)
    next
      assume "\<exists>pl dstr k. actions w' = actions w1 @ submissions pls @ [HttpPost tasks_url pl]
                  \<and> payload_of ws p (rest ! length pls) dstr (reading w1 k) pl
                  \<and> ticks w1 \<le> k \<and> (scheduled p \<longrightarrow> (\<forall>k' \<in> set ks. k' < k))"
      then obtain pl dstr' k where
        x: "actions w' = actions w1 @ submissions pls @ [HttpPost tasks_url pl]"
           "payload_of ws p (rest ! length pls) dstr' (reading w1 k) pl"
           "ticks w1 \<le> k" "scheduled p \<longrightarrow> (\<forall>k' \<in> set ks. k' < k)"
        by blast
      have "actions w' = actions w @ submissions (pl0 # pls) @ [HttpPost tasks_url pl]"
        using x(1) ha by (simp add: pl0_def)
      moreover have "payload_of ws p ((t # rest) ! length (pl0 # pls)) dstr' (reading w k) pl"
        using x(2) hf by simp
      moreover have "ticks w \<le> k" using x(3) hk by simp
      moreover have "scheduled p \<longrightarrow> (\<forall>k' \<in> set (k0 # ks). k' < k)"
        using x(3) x(4) hk by auto
      ultimately show ?thesis by blast
    qed
    show ?thesis
      using 1 2 3 4 5 6 by (intro exI[of _ "pl0 # pls"] exI[of _ "k0 # ks"]) blast
  qed
qed

section \<open>The calendar: an ordinal and its date\<close>













section \<open>The prompts send nothing to the task endpoint\<close>

lemma task_posts_append [simp]: "task_posts (xs @ ys) = task_posts xs @ task_posts ys"
  by (induction xs rule: task_posts.induct) auto

lemma urls_differ: "projects_url \<noteq> tasks_url"
  by (simp add: projects_url_def tasks_url_def)

lemma py_input_trace: "py_input w = (r, w1) \<Longrightarrow> trace w1 = trace w"
  by (auto simp: py_input_def split: list.splits)

lemma read_due_date_delta_posts:
  "read_due_date_delta w = (r, w1) \<Longrightarrow> task_posts (trace w1) = task_posts (trace w)"
  by (auto simp: read_due_date_delta_def split: prod.splits sum.splits option.splits if_splits
      dest: py_input_trace)

lemma read_yes_posts: "read_yes w = (r, w1) \<Longrightarrow> task_posts (trace w1) = task_posts (trace w)"
  by (auto simp: read_yes_def split: prod.splits sum.splits dest: py_input_trace)

lemma normalise_priority_posts:
  "normalise_priority s w = (r, w1) \<Longrightarrow> task_posts (trace w1) = task_posts (trace w)"
  by (auto simp: normalise_priority_def split: if_splits)

lemma project_due_date_posts:
  "project_due_date d w = (r, w1) \<Longrightarrow> task_posts (trace w1) = task_posts (trace w)"
  by (auto simp: project_due_date_def utcnow_def split: if_splits sum.splits)

lemma post_data_posts:
  "post_data url pl w = (r, w1) \<Longrightarrow>
     task_posts (trace w1) = task_posts (trace w) @ (if url = tasks_url then [pl] else [])"
  by (auto simp: post_data_def Let_def split: option.splits)

lemma get_data_posts:
  "get_data url w = (r, w1) \<Longrightarrow> task_posts (trace w1) = task_posts (trace w)"
  by (auto simp: get_data_def Let_def split: option.splits)

lemma create_project_posts:
  assumes "create_project ws d w = (r, w1)"
  shows "task_posts (trace w1) = task_posts (trace w)"
proof -
  obtain r1 wa where a: "py_input w = (r1, wa)" by (cases "py_input w")
  note ta = py_input_trace[OF a]
  show ?thesis
  proof (cases r1)
    case (Inl e)
    with assms a ta show ?thesis by (auto simp: create_project_def)
  next
    case (Inr project_name)
    show ?thesis
    proof (cases "project_name = []")
      case True
      with assms a Inr ta show ?thesis by (auto simp: create_project_def)
    next
      case False
      obtain r2 wb where b: "py_input wa = (r2, wb)" by (cases "py_input wa")
      note tb = py_input_trace[OF b]
      show ?thesis
      proof (cases r2)
        case (Inl e)
        with assms a b \<open>r1 = Inr project_name\<close> False ta tb show ?thesis
          by (auto simp: create_project_def)
      next
        case r2: (Inr priority_in)
        obtain priority wc where c: "normalise_priority priority_in wb = (priority, wc)"
          by (cases "normalise_priority priority_in wb")
        note tc = normalise_priority_posts[OF c]
        obtain r4 wd where d: "project_due_date d wc = (r4, wd)"
          by (cases "project_due_date d wc")
        note td = project_due_date_posts[OF d]
        have pre: "task_posts (trace wd) = task_posts (trace w)" using ta tb tc td by simp
        show ?thesis
        proof (cases r4)
          case (Inl e)
          with assms a b c d \<open>r1 = Inr project_name\<close> r2 False pre show ?thesis
            by (auto simp: create_project_def)
        next
          case r4: (Inr new_date)
          show ?thesis
          proof (cases "subscript ws ''id''")
            case (Inl e)
            with assms a b c d \<open>r1 = Inr project_name\<close> r2 r4 False pre show ?thesis
              by (auto simp: create_project_def)
          next
            case wid: (Inr wid)
            let ?pl = "JObj [(''name'', JStr project_name), (''workspaceId'', wid),
                           (''priority'', JStr priority), (''dueDate'', JStr (iso_z new_date))]"
            obtain response we where e: "post_data projects_url ?pl wd = (response, we)"
              by (cases "post_data projects_url ?pl wd")
            from post_data_posts[OF e] urls_differ pre
            have te: "task_posts (trace we) = task_posts (trace w)" by simp
            from assms a b c d e \<open>r1 = Inr project_name\<close> r2 r4 wid False te show ?thesis
              by (auto simp: create_project_def split: sum.splits bool.splits)
          qed
        qed
      qed
    qed
  qed
qed

lemma list_schedules_posts:
  "list_schedules w = (r, w1) \<Longrightarrow> task_posts (trace w1) = task_posts (trace w)"
  by (auto simp: list_schedules_def split: prod.splits if_splits dest: get_data_posts)

lemma print_schedule_lines_posts:
  "print_schedule_lines i xs w = (r, w1) \<Longrightarrow> task_posts (trace w1) = task_posts (trace w)"
proof (induction xs arbitrary: i w)
  case Nil
  then show ?case by simp
next
  case (Cons x xs)
  then show ?case by (auto split: sum.splits)
qed

declare choose_schedule.simps [simp del]

lemma choose_schedule_posts:
  "choose_schedule xs w = (r, w1) \<Longrightarrow> task_posts (trace w1) = task_posts (trace w)"
proof (induction xs w arbitrary: r w1 rule: choose_schedule.induct)
  case (1 schedules w)
  obtain r1 wa where a: "py_input w = (r1, wa)" by (cases "py_input w")
  note ta = py_input_trace[OF a]
  show ?case
  proof (cases r1)
    case (Inl e)
    with "1.prems" a ta show ?thesis by (subst (asm) choose_schedule.simps) auto
  next
    case (Inr choice)
    show ?thesis
    proof (cases "choice = []")
      case True
      with "1.prems" a Inr ta show ?thesis by (subst (asm) choose_schedule.simps) auto
    next
      case False
      show ?thesis
      proof (cases "py_int wa choice")
        case None
        with "1.prems" a Inr False
        have "choose_schedule schedules (emit (Print InvalidInputNumber) wa) = (r, w1)"
          by (subst (asm) choose_schedule.simps) simp
        from "1.IH"(1)[OF a[symmetric] Inr False None this] ta show ?thesis by simp
      next
        case (Some c)
        show ?thesis
        proof (cases "c = 0 \<or> (1 \<le> c \<and> c \<le> int (length schedules))")
          case True
          with "1.prems" a Inr False Some ta show ?thesis
            by (subst (asm) choose_schedule.simps) (auto split: sum.splits if_splits)
        next
          case F: False
          with "1.prems" a Inr False Some
          have "choose_schedule schedules (emit (Print InvalidSelection) wa) = (r, w1)"
            by (subst (asm) choose_schedule.simps) (auto split: if_splits)
          moreover from F have "c \<noteq> 0" "\<not> (1 \<le> c \<and> c \<le> int (length schedules))" by auto
          ultimately show ?thesis
            using "1.IH"(2)[OF a[symmetric] Inr False Some] ta by simp
        qed
      qed
    qed
  qed
qed


lemma select_schedule_posts:
  assumes "select_schedule sch w = (r, w1)"
  shows "task_posts (trace w1) = task_posts (trace w)"
proof (cases sch)
  case None
  with assms show ?thesis by (auto simp: select_schedule_def)
next
  case (Some v)
  show ?thesis
  proof (cases "truthy v")
    case False
    with assms Some show ?thesis by (auto simp: select_schedule_def)
  next
    case True
    show ?thesis
    proof (cases "py_iter v")
      case (Inl e)
      with assms Some True show ?thesis by (auto simp: select_schedule_def)
    next
      case (Inr xs)
      obtain r1 wa where a: "print_schedule_lines 0 xs (emit (Print AvailableSchedules) w) = (r1, wa)"
        by (cases "print_schedule_lines 0 xs (emit (Print AvailableSchedules) w)")
      from print_schedule_lines_posts[OF a]
      have ta: "task_posts (trace wa) = task_posts (trace w)" by simp
      show ?thesis
      proof (cases r1)
        case (Some e)
        with assms \<open>sch = Some v\<close> True Inr a ta show ?thesis by (auto simp: select_schedule_def)
      next
        case None
        with assms \<open>sch = Some v\<close> True Inr a have "choose_schedule xs wa = (r, w1)"
          by (auto simp: select_schedule_def)
        from choose_schedule_posts[OF this] ta show ?thesis by simp
      qed
    qed
  qed
qed

lemma gather_run_params_posts:
  assumes "gather_run_params ws w = (r, w6)"
  shows "task_posts (trace w6) = task_posts (trace w)"
proof -
  obtain r1 w1 where a: "read_due_date_delta w = (r1, w1)" by (cases "read_due_date_delta w")
  note ta = read_due_date_delta_posts[OF a]
  show ?thesis
  proof (cases r1)
    case (Inl e)
    with assms a ta show ?thesis by (auto simp: gather_run_params_def)
  next
    case r1: (Inr delta)
    obtain r2 w2 where b: "read_yes w1 = (r2, w2)" by (cases "read_yes w1")
    note tb = read_yes_posts[OF b]
    show ?thesis
    proof (cases r2)
      case (Inl e)
      with assms a b r1 ta tb show ?thesis by (auto simp: gather_run_params_def)
    next
      case r2: (Inr create_new_project)
      obtain r3 w3 where c: "(if create_new_project then create_project ws delta w2 else (Inr None, w2)) = (r3, w3)"
        by (cases "if create_new_project then create_project ws delta w2 else (Inr None, w2)")
      have tc: "task_posts (trace w3) = task_posts (trace w2)"
        using c by (auto split: if_splits dest: create_project_posts)
      show ?thesis
      proof (cases r3)
        case (Inl e)
        with assms a b c r1 r2 ta tb tc show ?thesis by (auto simp: gather_run_params_def)
      next
        case r3: (Inr pid)
        obtain r4 w4 where d: "read_yes w3 = (r4, w4)" by (cases "read_yes w3")
        note td = read_yes_posts[OF d]
        show ?thesis
        proof (cases r4)
          case (Inl e)
          with assms a b c d r1 r2 r3 ta tb tc td show ?thesis
            by (auto simp: gather_run_params_def)
        next
          case r4: (Inr autoschedule)
          obtain schedules w5 where e: "list_schedules w4 = (schedules, w5)"
            by (cases "list_schedules w4")
          note te = list_schedules_posts[OF e]
          obtain r6 w6' where f: "select_schedule schedules w5 = (r6, w6')"
            by (cases "select_schedule schedules w5")
          note tf = select_schedule_posts[OF f]
          from assms a b c d e f r1 r2 r3 r4 have "w6 = w6'"
            by (auto simp: gather_run_params_def split: sum.splits)
          with ta tb tc td te tf show ?thesis by simp
        qed
      qed
    qed
  qed
qed

section \<open>Due dates, and when the loop body raises nothing\<close>


lemma datetime_add_days_Inl:
  assumes "\<not> (0 < int (toordinal dt) + n \<and> int (toordinal dt) + n \<le> int MAXORDINAL)"
  shows "datetime_add_days dt n = Inl OverflowError"
  using assms by (auto simp: datetime_add_days_def Let_def)





lemma build_payload_ok:
  assumes "has_key t ''name''" "has_key t ''priority''" "has_key ws ''id''"
  shows "\<exists>pl w1. build_payload ws p t dstr w = (Inr pl, w1)"
proof -
  from assms(1) obtain kvs where t: "t = JObj kvs"
    by (cases t) (auto simp: has_key_def)
  from assms show ?thesis
    by (auto simp: build_payload_def has_key_def t auto_scheduled_eq split: sum.splits)
qed





lemma project_entry_keys:
  "k \<noteq> ''projectId'' \<Longrightarrow> map_of (project_entry p) k = None"
  by (auto simp: project_entry_def split: option.splits)

lemma payload_of_fields:
  assumes "payload_of ws p t dstr now pl"
  shows "subscript pl ''name'' = subscript t ''name''"
    and "subscript pl ''workspaceId'' = subscript ws ''id''"
    and "subscript pl ''dueDate'' = Inr (JStr dstr)"
    and "subscript pl ''priority'' = subscript t ''priority''"
    and "start_date pl = (if scheduled p then Some (JStr (iso_z now)) else None)"
  using assms
  by (auto simp: payload_of_def start_date_def sched_block_def project_entry_keys map_add_def)

section \<open>Requests and pauses of a run\<close>

lemmas run_simps =
  create_tasks_from_template_def gather_run_params_def read_due_date_delta_def read_yes_def
  py_input_def list_schedules_def get_data_def select_schedule_def invalid_template_def
  str_lower_def lower_table_def create_project_def normalise_priority_def project_due_date_def
  str_upper_def upper_table_def decimal_int_def
  replay_def template_entry_def night_params_def nameless_template_def quiet_world_def

lemma task_posts_actions: "task_posts (filter (\<lambda>e. \<not> is_print e) es) = task_posts es"
  by (induction es rule: task_posts.induct) auto

lemma task_posts_submissions [simp]: "task_posts (submissions pls) = pls"
  by (induction pls) auto

lemma sleeps_submissions:
  "length (filter (\<lambda>e. e = Sleep DELAY_SECONDS) (submissions pls)) = length pls"
  by (induction pls) auto

lemma task_posts_run:
  "actions w' = actions w @ submissions pls \<Longrightarrow> task_posts (trace w') = task_posts (trace w) @ pls"
proof -
  assume a: "actions w' = actions w @ submissions pls"
  have "task_posts (trace w') = task_posts (actions w')"
    by (simp add: actions_def task_posts_actions)
  also have "\<dots> = task_posts (actions w) @ pls" by (simp add: a)
  also have "task_posts (actions w) = task_posts (trace w)"
    by (simp add: actions_def task_posts_actions)
  finally show ?thesis .
qed

lemma map_of_filter_other:
  "k \<noteq> k' \<Longrightarrow> map_of (filter (\<lambda>kv. fst kv \<noteq> k') kvs) k = map_of kvs k"
  by (induction kvs) auto


section \<open>The due date string, overflow and missing keys\<close>













section \<open>The payloads sent by a run, returned or not\<close>

lemma task_posts_step:
  assumes "actions w' = actions w @ es"
  shows "task_posts (trace w') = task_posts (trace w) @ task_posts es"
proof -
  have "task_posts (trace w') = task_posts (actions w')"
    by (simp add: actions_def task_posts_actions)
  also have "\<dots> = task_posts (actions w) @ task_posts es" by (simp add: assms)
  also have "task_posts (actions w) = task_posts (trace w)"
    by (simp add: actions_def task_posts_actions)
  finally show ?thesis .
qed

lemma dispatch_loop_sent:
  assumes "dispatch_loop ws p n i specs c w = (r, c', w')"
  shows "\<exists>sent ks.
           length sent \<le> length specs \<and> (r = None \<longrightarrow> length sent = length specs)
         \<and> length ks = length sent
         \<and> task_posts (trace w') = task_posts (trace w) @ sent
         \<and> (\<forall>j < length sent. \<exists>dstr. payload_of ws p (specs ! j) dstr (reading w (ks ! j)) (sent ! j))
         \<and> (\<forall>k \<in> set ks. ticks w \<le> k)
         \<and> (scheduled p \<longrightarrow> sorted_wrt (<) ks)"
proof -
  obtain s f where c: "c = (s, f)" by (cases c)
  obtain s' f' where c': "c' = (s', f')" by (cases c')
  show ?thesis
  proof (cases r)
    case None
    from dispatch_loop_None[OF assms[unfolded c c' None]] obtain pls ks where
      h: "length pls = length specs" "length ks = length specs"
         "actions w' = actions w @ submissions pls"
         "\<forall>j < length specs. \<exists>dstr. payload_of ws p (specs ! j) dstr (reading w (ks ! j)) (pls ! j)"
         "\<forall>k \<in> set ks. ticks w \<le> k \<and> (scheduled p \<longrightarrow> k < ticks w')"
         "scheduled p \<longrightarrow> sorted_wrt (<) ks"
      by blast
    have "task_posts (trace w') = task_posts (trace w) @ pls"
      using task_posts_step[OF h(3)] by simp
    with h show ?thesis
      by (intro exI[of _ pls] exI[of _ ks]) simp
  next
    case (Some e)
    from dispatch_loop_Some[OF assms[unfolded c c' Some]] obtain pls ks where
      h: "length pls < length specs" "length ks = length pls"
         "\<forall>j < length pls. \<exists>dstr. payload_of ws p (specs ! j) dstr (reading w (ks ! j)) (pls ! j)"
         "\<forall>k \<in> set ks. ticks w \<le> k"
         "scheduled p \<longrightarrow> sorted_wrt (<) ks"
      and a: "actions w' = actions w @ submissions pls
            \<or> (\<exists>pl dstr k. actions w' = actions w @ submissions pls @ [HttpPost tasks_url pl]
                  \<and> payload_of ws p (specs ! length pls) dstr (reading w k) pl
                  \<and> ticks w \<le> k \<and> (scheduled p \<longrightarrow> (\<forall>k' \<in> set ks. k' < k)))"
      by blast
    from a show ?thesis
    proof
      assume x: "actions w' = actions w @ submissions pls"
      have "task_posts (trace w') = task_posts (trace w) @ pls"
        using task_posts_step[OF x] by simp
      with h Some show ?thesis
        by (intro exI[of _ pls] exI[of _ ks]) simp
    next
      assume "\<exists>pl dstr k. actions w' = actions w @ submissions pls @ [HttpPost tasks_url pl]
                  \<and> payload_of ws p (specs ! length pls) dstr (reading w k) pl
                  \<and> ticks w \<le> k \<and> (scheduled p \<longrightarrow> (\<forall>k' \<in> set ks. k' < k))"
      then obtain pl dstr k where
        x: "actions w' = actions w @ submissions pls @ [HttpPost tasks_url pl]"
           "payload_of ws p (specs ! length pls) dstr (reading w k) pl"
           "ticks w \<le> k" "scheduled p \<longrightarrow> (\<forall>k' \<in> set ks. k' < k)"
        by blast
      have 1: "task_posts (trace w') = task_posts (trace w) @ (pls @ [pl])"
        using task_posts_step[OF x(1)] by simp
      have 2: "\<forall>j < length (pls @ [pl]).
                 \<exists>dstr. payload_of ws p (specs ! j) dstr (reading w ((ks @ [k]) ! j)) ((pls @ [pl]) ! j)"
      proof (intro allI impI)
        fix j assume j: "j < length (pls @ [pl])"
        show "\<exists>dstr. payload_of ws p (specs ! j) dstr (reading w ((ks @ [k]) ! j)) ((pls @ [pl]) ! j)"
        proof (cases "j < length pls")
          case True
          with h(2) h(3) show ?thesis by (simp add: nth_append)
        next
          case False
          with j have "j = length pls" by simp
          with x(2) h(2) show ?thesis by (auto simp: nth_append)
        qed
      qed
      have 3: "\<forall>k' \<in> set (ks @ [k]). ticks w \<le> k'" using h(4) x(3) by auto
      have 4: "scheduled p \<longrightarrow> sorted_wrt (<) (ks @ [k])"
        using h(5) x(4) by (auto simp: sorted_wrt_append)
      have 5: "length (pls @ [pl]) \<le> length specs \<and> length (ks @ [k]) = length (pls @ [pl])"
        using h(1) h(2) by simp
      from 1 2 3 4 5 Some show ?thesis
        by (intro exI[of _ "pls @ [pl]"] exI[of _ "ks @ [k]"]) simp
    qed
  qed
qed

lemma payload_name_prefix:
  assumes "\<forall>j < length sent. \<exists>dstr. payload_of ws p (specs ! j) dstr (reading w (ks ! j)) (sent ! j)"
    and "length sent \<le> length specs"
  shows "map (\<lambda>pl. subscript pl ''name'') sent
           = take (length sent) (map (\<lambda>t. subscript t ''name'') specs)"
proof (rule nth_equalityI)
  show "length (map (\<lambda>pl. subscript pl ''name'') sent)
          = length (take (length sent) (map (\<lambda>t. subscript t ''name'') specs))"
    using assms(2) by simp
next
  fix j assume "j < length (map (\<lambda>pl. subscript pl ''name'') sent)"
  then have j: "j < length sent" by simp
  with assms(1) obtain dstr where "payload_of ws p (specs ! j) dstr (reading w (ks ! j)) (sent ! j)"
    by blast
  from payload_of_fields(1)[OF this] j assms(2)
  show "map (\<lambda>pl. subscript pl ''name'') sent ! j
          = take (length sent) (map (\<lambda>t. subscript t ''name'') specs) ! j"
    by simp
qed

section \<open>The claims\<close>

text \<open>
  C1, as the code has it. The claim fails for a run of the loop that an exception ends. When
  the service answers with the JSON value \<^verbatim>\<open>true\<close>, the test \<^verbatim>\<open>"id" in response\<close> raises
  \<^verbatim>\<open>TypeError\<close> after the request for the first entry has been sent: the run over the two
  sample entries has made one submission, which raised neither counter, and it ends with
  0 successes and 0 failures.
\<close>

theorem submission_counted_by_neither:
  "fst (dispatch_loop demo_workspace demo_params 2 0 demo_specs (0, 0) true_reply_world)
     = Some TypeError
   \<and> fst (snd (dispatch_loop demo_workspace demo_params 2 0 demo_specs (0, 0) true_reply_world))
     = (0, 0)
   \<and> length (task_posts (trace (snd (snd (dispatch_loop demo_workspace demo_params 2 0 demo_specs
                                              (0, 0) true_reply_world))))) = 1
   \<and> length demo_specs = 2"
  by (simp add: eval_simps true_reply_world_def tasks_url_def)

text \<open>
  C1, amended. A run of the loop over \<open>N\<close> entries that returns has made exactly one request
  per entry, each followed by the pause, and ends with
  \<open>task_successes + task_failures = N\<close>; one pass through the body that returns has sent
  one request and raised exactly one of the two counters by one. A run that an exception ends
  has completed \<open>k < N\<close> entries in this way, with \<open>task_successes + task_failures = k\<close>, and
  has sent at most one further request, for which neither counter was raised: a pass through
  the body that raises leaves the counters as they were and has sent at most one request.
\<close>

theorem dispatch_counts_every_spec:
  "(dispatch_loop ws p n i specs (0, 0) w = (None, (s, f), w') \<longrightarrow>
      s + f = length specs
      \<and> (\<exists>pls. length pls = length specs \<and> actions w' = actions w @ submissions pls))
   \<and> (dispatch_loop ws p n i specs (0, 0) w = (Some e, (s, f), w') \<longrightarrow>
      (\<exists>pls. length pls < length specs \<and> s + f = length pls
            \<and> (actions w' = actions w @ submissions pls
               \<or> (\<exists>pl. actions w' = actions w @ submissions pls @ [HttpPost tasks_url pl]))))
   \<and> (create_task ws p n j t (a, b) v = (None, c, v') \<longrightarrow>
      (c = (a + 1, b) \<or> c = (a, b + 1))
      \<and> (\<exists>pl. actions v' = actions v @ [HttpPost tasks_url pl, Sleep DELAY_SECONDS]))
   \<and> (create_task ws p n j t (a, b) v = (Some e', c, v') \<longrightarrow>
      c = (a, b)
      \<and> (actions v' = actions v \<or> (\<exists>pl. actions v' = actions v @ [HttpPost tasks_url pl])))"
proof (intro conjI impI)
  assume run: "dispatch_loop ws p n i specs (0, 0) w = (None, (s, f), w')"
  from dispatch_loop_None[OF run] show "s + f = length specs" by auto
  from dispatch_loop_None[OF run]
  show "\<exists>pls. length pls = length specs \<and> actions w' = actions w @ submissions pls" by blast
next
  assume run: "dispatch_loop ws p n i specs (0, 0) w = (Some e, (s, f), w')"
  from dispatch_loop_Some[OF run] obtain pls ks where
    h: "length pls < length specs" "s + f = 0 + 0 + length pls"
    and a: "actions w' = actions w @ submissions pls
            \<or> (\<exists>pl dstr k. actions w' = actions w @ submissions pls @ [HttpPost tasks_url pl]
                  \<and> payload_of ws p (specs ! length pls) dstr (reading w k) pl
                  \<and> ticks w \<le> k \<and> (scheduled p \<longrightarrow> (\<forall>k' \<in> set ks. k' < k)))"
    by blast
  from a have "actions w' = actions w @ submissions pls
               \<or> (\<exists>pl. actions w' = actions w @ submissions pls @ [HttpPost tasks_url pl])"
    by blast
  with h show "\<exists>pls. length pls < length specs \<and> s + f = length pls
            \<and> (actions w' = actions w @ submissions pls
               \<or> (\<exists>pl. actions w' = actions w @ submissions pls @ [HttpPost tasks_url pl]))"
    by auto
next
  assume step: "create_task ws p n j t (a, b) v = (None, c, v')"
  from create_task_None[OF step] show "c = (a + 1, b) \<or> c = (a, b + 1)" by blast
  from create_task_None[OF step]
  show "\<exists>pl. actions v' = actions v @ [HttpPost tasks_url pl, Sleep DELAY_SECONDS]" by blast
next
  assume step: "create_task ws p n j t (a, b) v = (Some e', c, v')"
  from create_task_Some[OF step] show "c = (a, b)" by blast
  from create_task_Some[OF step]
  show "actions v' = actions v \<or> (\<exists>pl. actions v' = actions v @ [HttpPost tasks_url pl])"
    by blast
qed

theorem dispatch_counts_every_spec_witness:
  "dispatch_loop demo_workspace demo_params 2 0 demo_specs (0, 0) demo_world
     = (None, (1, 1), snd (snd (dispatch_loop demo_workspace demo_params 2 0 demo_specs (0, 0) demo_world)))
   \<and> (1::nat) + 1 = length demo_specs
   \<and> (\<exists>pls. length pls = length demo_specs
        \<and> actions (snd (snd (dispatch_loop demo_workspace demo_params 2 0 demo_specs (0, 0) demo_world)))
            = actions demo_world @ submissions pls)
   \<and> create_task demo_workspace demo_params 2 0 (hd demo_specs) (0, 0) demo_world
     = (None, (1, 0), snd (snd (create_task demo_workspace demo_params 2 0 (hd demo_specs) (0, 0) demo_world)))
   \<and> dispatch_loop demo_workspace demo_params 2 0 demo_specs (0, 0) true_reply_world
     = (Some TypeError, (0, 0),
        snd (snd (dispatch_loop demo_workspace demo_params 2 0 demo_specs (0, 0) true_reply_world)))
   \<and> (\<exists>pls. length pls < length demo_specs \<and> (0::nat) + 0 = length pls
        \<and> (actions (snd (snd (dispatch_loop demo_workspace demo_params 2 0 demo_specs (0, 0)
                                  true_reply_world)))
              = actions true_reply_world @ submissions pls
            \<or> (\<exists>pl. actions (snd (snd (dispatch_loop demo_workspace demo_params 2 0 demo_specs (0, 0)
                                           true_reply_world)))
                  = actions true_reply_world @ submissions pls @ [HttpPost tasks_url pl])))
   \<and> create_task demo_workspace demo_params 2 0 (hd demo_specs) (0, 0) true_reply_world
     = (Some TypeError, (0, 0),
        snd (snd (create_task demo_workspace demo_params 2 0 (hd demo_specs) (0, 0) true_reply_world)))"
proof -
  let ?run = "dispatch_loop demo_workspace demo_params 2 0 demo_specs (0, 0) demo_world"
  let ?step = "create_task demo_workspace demo_params 2 0 (hd demo_specs) (0, 0) demo_world"
  let ?bad = "dispatch_loop demo_workspace demo_params 2 0 demo_specs (0, 0) true_reply_world"
  let ?badstep = "create_task demo_workspace demo_params 2 0 (hd demo_specs) (0, 0) true_reply_world"
  have r1: "fst ?run = None" by (simp add: eval_simps)
  have r2: "fst (snd ?run) = (1, 1)" by (simp add: eval_simps)
  have run: "?run = (None, (1, 1), snd (snd ?run))"
    using r1 r2 by (simp add: prod_eq_iff)
  have s1: "fst ?step = None" by (simp add: eval_simps)
  have s2: "fst (snd ?step) = (1, 0)" by (simp add: eval_simps)
  have step: "?step = (None, (1, 0), snd (snd ?step))"
    using s1 s2 by (simp add: prod_eq_iff)
  have b1: "fst ?bad = Some TypeError" by (simp add: eval_simps true_reply_world_def)
  have b2: "fst (snd ?bad) = (0, 0)" by (simp add: eval_simps true_reply_world_def)
  have bad: "?bad = (Some TypeError, (0, 0), snd (snd ?bad))"
    using b1 b2 by (simp add: prod_eq_iff)
  have t1: "fst ?badstep = Some TypeError" by (simp add: eval_simps true_reply_world_def)
  have t2: "fst (snd ?badstep) = (0, 0)" by (simp add: eval_simps true_reply_world_def)
  have badstep: "?badstep = (Some TypeError, (0, 0), snd (snd ?badstep))"
    using t1 t2 by (simp add: prod_eq_iff)
  from dispatch_counts_every_spec[where ws = demo_workspace and p = demo_params and n = 2
         and i = 0 and specs = demo_specs and w = demo_world and s = 1 and f = 1
         and w' = "snd (snd ?run)" and e = TypeError and j = 0 and t = "hd demo_specs"
         and a = 0 and b = 0 and v = demo_world and c = "(1, 0)" and v' = "snd (snd ?step)"
         and e' = TypeError] run step
  have good: "(1::nat) + 1 = length demo_specs
      \<and> (\<exists>pls. length pls = length demo_specs
             \<and> actions (snd (snd ?run)) = actions demo_world @ submissions pls)"
    by simp
  from dispatch_counts_every_spec[where ws = demo_workspace and p = demo_params and n = 2
         and i = 0 and specs = demo_specs and w = true_reply_world and s = 0 and f = 0
         and w' = "snd (snd ?bad)" and e = TypeError and j = 0 and t = "hd demo_specs"
         and a = 0 and b = 0 and v = true_reply_world and c = "(0, 0)"
         and v' = "snd (snd ?badstep)" and e' = TypeError] bad badstep
  have cut: "\<exists>pls. length pls < length demo_specs \<and> (0::nat) + 0 = length pls
        \<and> (actions (snd (snd ?bad)) = actions true_reply_world @ submissions pls
            \<or> (\<exists>pl. actions (snd (snd ?bad))
                  = actions true_reply_world @ submissions pls @ [HttpPost tasks_url pl]))"
    by simp
  from run step bad badstep good cut show ?thesis by blast
qed

text \<open>
  C7, as the code has it. The claim fails for a run of the loop that an exception ends after
  a request. When the service answers with the JSON string \<^verbatim>\<open>"invalid"\<close>, the test
  \<^verbatim>\<open>"id" in response\<close> holds (of the substring) and \<^verbatim>\<open>response['id']\<close> raises \<^verbatim>\<open>TypeError\<close>:
  the request for the first entry has been sent, and no pause follows it.
\<close>

theorem request_without_pause:
  "fst (dispatch_loop demo_workspace demo_params 2 0 demo_specs (0, 0) text_reply_world)
     = Some TypeError
   \<and> actions (snd (snd (dispatch_loop demo_workspace demo_params 2 0 demo_specs (0, 0)
                          text_reply_world)))
     = [HttpPost tasks_url
          (JObj [(''name'', JStr ''a''), (''workspaceId'', JStr ''ws1''),
                 (''dueDate'', JStr ''2025-01-03T23:59:59Z''), (''duration'', JInt 30),
                 (''priority'', JStr ''HIGH'')])]"
  by (simp add: eval_simps text_reply_world_def actions_def)

text \<open>
  C7, amended. In a run of the loop that returns, the requests and pauses are exactly one
  request per entry, in the order of the entries, each followed by a pause of 8 seconds, the
  last one included: \<open>N\<close> requests and \<open>N\<close> pauses, the \<open>j\<close>-th request carrying the payload of
  the \<open>j\<close>-th entry, so that no entry is sent twice. In a run that an exception ends, the same
  holds of the \<open>k < N\<close> entries completed before it; at most one further request has been sent,
  the one of the entry that follows them, and no pause follows that request.
\<close>

theorem pause_after_every_submission:
  "(dispatch_loop ws p n i specs c w = (None, c', w') \<longrightarrow>
      (\<exists>pls. length pls = length specs
            \<and> actions w' = actions w @ submissions pls
            \<and> task_posts (trace w') = task_posts (trace w) @ pls
            \<and> length (filter (\<lambda>e. e = Sleep 8) (submissions pls)) = length specs
            \<and> (\<forall>j < length specs. \<exists>dstr now. payload_of ws p (specs ! j) dstr now (pls ! j))))
   \<and> (dispatch_loop ws p n i specs c w = (Some e, c', w') \<longrightarrow>
      (\<exists>pls. length pls < length specs
            \<and> (\<forall>j < length pls. \<exists>dstr now. payload_of ws p (specs ! j) dstr now (pls ! j))
            \<and> (actions w' = actions w @ submissions pls
               \<or> (\<exists>pl dstr now. actions w' = actions w @ submissions pls @ [HttpPost tasks_url pl]
                     \<and> payload_of ws p (specs ! length pls) dstr now pl))))
   \<and> submissions [a, b] = [HttpPost tasks_url a, Sleep 8, HttpPost tasks_url b, Sleep 8]"
proof (intro conjI impI)
  assume run: "dispatch_loop ws p n i specs c w = (None, c', w')"
  obtain s f where c: "c = (s, f)" by (cases c)
  obtain s' f' where c': "c' = (s', f')" by (cases c')
  from dispatch_loop_None[OF run[unfolded c c']] obtain pls ks where
    h: "length pls = length specs" "actions w' = actions w @ submissions pls"
       "\<forall>j < length specs. \<exists>dstr. payload_of ws p (specs ! j) dstr (reading w (ks ! j)) (pls ! j)"
    by blast
  have "length (filter (\<lambda>e. e = Sleep 8) (submissions pls)) = length specs"
    using sleeps_submissions[of pls] h(1) by (simp add: DELAY_SECONDS_def)
  moreover have "task_posts (trace w') = task_posts (trace w) @ pls"
    using h(2) by (rule task_posts_run)
  ultimately show "\<exists>pls. length pls = length specs
            \<and> actions w' = actions w @ submissions pls
            \<and> task_posts (trace w') = task_posts (trace w) @ pls
            \<and> length (filter (\<lambda>e. e = Sleep 8) (submissions pls)) = length specs
            \<and> (\<forall>j < length specs. \<exists>dstr now. payload_of ws p (specs ! j) dstr now (pls ! j))"
    using h by blast
next
  assume run: "dispatch_loop ws p n i specs c w = (Some e, c', w')"
  obtain s f where c: "c = (s, f)" by (cases c)
  obtain s' f' where c': "c' = (s', f')" by (cases c')
  from dispatch_loop_Some[OF run[unfolded c c']] obtain pls ks where
    h: "length pls < length specs"
       "\<forall>j < length pls. \<exists>dstr. payload_of ws p (specs ! j) dstr (reading w (ks ! j)) (pls ! j)"
    and a: "actions w' = actions w @ submissions pls
            \<or> (\<exists>pl dstr k. actions w' = actions w @ submissions pls @ [HttpPost tasks_url pl]
                  \<and> payload_of ws p (specs ! length pls) dstr (reading w k) pl
                  \<and> ticks w \<le> k \<and> (scheduled p \<longrightarrow> (\<forall>k' \<in> set ks. k' < k)))"
    by blast
  from h(2) have 1: "\<forall>j < length pls. \<exists>dstr now. payload_of ws p (specs ! j) dstr now (pls ! j)"
    by blast
  from a have 2: "actions w' = actions w @ submissions pls
               \<or> (\<exists>pl dstr now. actions w' = actions w @ submissions pls @ [HttpPost tasks_url pl]
                     \<and> payload_of ws p (specs ! length pls) dstr now pl)"
    by blast
  from h(1) 1 2
  show "\<exists>pls. length pls < length specs
            \<and> (\<forall>j < length pls. \<exists>dstr now. payload_of ws p (specs ! j) dstr now (pls ! j))
            \<and> (actions w' = actions w @ submissions pls
               \<or> (\<exists>pl dstr now. actions w' = actions w @ submissions pls @ [HttpPost tasks_url pl]
                     \<and> payload_of ws p (specs ! length pls) dstr now pl))"
    by blast
next
  show "submissions [a, b] = [HttpPost tasks_url a, Sleep 8, HttpPost tasks_url b, Sleep 8]"
    by (simp add: DELAY_SECONDS_def)
qed

theorem pause_after_every_submission_witness:
  "fst (dispatch_loop demo_workspace demo_params 2 0 demo_specs (0, 0) demo_world) = None
   \<and> actions (snd (snd (dispatch_loop demo_workspace demo_params 2 0 demo_specs (0, 0) demo_world)))
       = submissions (task_posts (trace (snd (snd (dispatch_loop demo_workspace demo_params 2 0 demo_specs (0, 0) demo_world)))))
   \<and> length (task_posts (trace (snd (snd (dispatch_loop demo_workspace demo_params 2 0 demo_specs (0, 0) demo_world))))) = 2
   \<and> fst (dispatch_loop demo_workspace demo_params 2 0 demo_specs (0, 0) text_reply_world)
       = Some TypeError
   \<and> (\<exists>pl dstr now.
         actions (snd (snd (dispatch_loop demo_workspace demo_params 2 0 demo_specs (0, 0)
                              text_reply_world)))
           = [HttpPost tasks_url pl]
         \<and> payload_of demo_workspace demo_params (demo_specs ! 0) dstr now pl)"
proof -
  let ?run = "dispatch_loop demo_workspace demo_params 2 0 demo_specs (0, 0) demo_world"
  let ?bad = "dispatch_loop demo_workspace demo_params 2 0 demo_specs (0, 0) text_reply_world"
  let ?pl = "JObj [(''name'', JStr ''a''), (''workspaceId'', JStr ''ws1''),
                 (''dueDate'', JStr ''2025-01-03T23:59:59Z''), (''duration'', JInt 30),
                 (''priority'', JStr ''HIGH'')]"
  have r1: "fst ?run = None" by (simp add: eval_simps)
  then have run: "?run = (None, fst (snd ?run), snd (snd ?run))" by (simp add: prod_eq_iff)
  have b1: "fst ?bad = Some TypeError" by (simp add: eval_simps text_reply_world_def)
  then have bad: "?bad = (Some TypeError, fst (snd ?bad), snd (snd ?bad))"
    by (simp add: prod_eq_iff)
  have b2: "actions (snd (snd ?bad)) = [HttpPost tasks_url ?pl]"
    by (simp add: eval_simps text_reply_world_def actions_def)
  have d: "actions demo_world = []" "task_posts (trace demo_world) = []"
    "actions text_reply_world = []"
    by (simp_all add: demo_world_def text_reply_world_def actions_def)
  from pause_after_every_submission[of demo_workspace demo_params 2 0 demo_specs "(0, 0)" demo_world
         "fst (snd ?run)" "snd (snd ?run)" TypeError] run
  obtain pls where p: "length pls = length demo_specs"
      "actions (snd (snd ?run)) = actions demo_world @ submissions pls"
      "task_posts (trace (snd (snd ?run))) = task_posts (trace demo_world) @ pls"
    by blast
  from pause_after_every_submission[of demo_workspace demo_params 2 0 demo_specs "(0, 0)"
         text_reply_world "fst (snd ?bad)" "snd (snd ?bad)" TypeError] bad
  obtain qls where q: "length qls < length demo_specs"
      "actions (snd (snd ?bad)) = actions text_reply_world @ submissions qls
       \<or> (\<exists>pl dstr now. actions (snd (snd ?bad))
                           = actions text_reply_world @ submissions qls @ [HttpPost tasks_url pl]
             \<and> payload_of demo_workspace demo_params (demo_specs ! length qls) dstr now pl)"
    by blast
  have qn: "qls = []"
  proof (cases qls)
    case Nil
    then show ?thesis .
  next
    case (Cons x xs)
    with q(2) b2 d(3) show ?thesis by auto
  qed
  from q(2) b2 d(3) qn
  have last: "\<exists>pl dstr now. actions (snd (snd ?bad)) = [HttpPost tasks_url pl]
                 \<and> payload_of demo_workspace demo_params (demo_specs ! 0) dstr now pl"
    by auto
  from r1 b1 p d last show ?thesis by (simp add: demo_specs_def)
qed

text \<open>
  C3, as the code has it. The claim fails when the schedule that was selected has an empty
  name: the code tests the name itself (\<^verbatim>\<open>if selected_schedule:\<close>), and an empty string
  counts as no selection. In the first session the service lists one schedule, named
  \<^verbatim>\<open>""\<close>, the user selects it and declines autoscheduling: the two payloads sent have no
  \<^verbatim>\<open>autoScheduled\<close> key. In the second session the user also asks for autoscheduling: the
  schedule of the blocks is \<^verbatim>\<open>Work Hours\<close>, not the name selected.
\<close>

theorem blank_schedule_name_not_used:
  "fst (gather_run_params demo_workspace blank_schedule_session)
     = Inr \<lparr>due_date_delta = 0, project_id = None, use_autoschedule = False,
            selected_schedule = Some (JStr [])\<rparr>
   \<and> map (py_in ''autoScheduled'')
         (task_posts (trace (snd (create_tasks_from_template demo_workspace demo_template
                                    blank_schedule_session))))
       = [Inr False, Inr False]
   \<and> fst (gather_run_params demo_workspace blank_schedule_flag_session)
     = Inr \<lparr>due_date_delta = 0, project_id = None, use_autoschedule = True,
            selected_schedule = Some (JStr [])\<rparr>
   \<and> map (\<lambda>pl. subscript pl ''autoScheduled'')
         (task_posts (trace (snd (create_tasks_from_template demo_workspace demo_template
                                    blank_schedule_flag_session))))
       = [Inr (JObj [(''startDate'', JStr ''2025-01-01T12:00:00''),
                     (''deadlineType'', JStr ''SOFT''), (''schedule'', JStr ''Work Hours'')]),
          Inr (JObj [(''startDate'', JStr ''2025-01-01T12:00:02''),
                     (''deadlineType'', JStr ''SOFT''), (''schedule'', JStr ''Work Hours'')])]"
proof -
  have 1: "fst (gather_run_params demo_workspace blank_schedule_session)
     = Inr \<lparr>due_date_delta = 0, project_id = None, use_autoschedule = False,
            selected_schedule = Some (JStr [])\<rparr>"
    by (simp add: eval_simps run_simps blank_schedule_session_def choose_schedule.simps)
  have 2: "map (py_in ''autoScheduled'')
         (task_posts (trace (snd (create_tasks_from_template demo_workspace demo_template
                                    blank_schedule_session))))
       = [Inr False, Inr False]"
    by (simp add: eval_simps run_simps blank_schedule_session_def choose_schedule.simps demo_template_def
                  tasks_url_def schedules_url_def)
  have 3: "fst (gather_run_params demo_workspace blank_schedule_flag_session)
     = Inr \<lparr>due_date_delta = 0, project_id = None, use_autoschedule = True,
            selected_schedule = Some (JStr [])\<rparr>"
    by (simp add: eval_simps run_simps blank_schedule_session_def blank_schedule_flag_session_def
                  choose_schedule.simps)
  have 4: "map (\<lambda>pl. subscript pl ''autoScheduled'')
         (task_posts (trace (snd (create_tasks_from_template demo_workspace demo_template
                                    blank_schedule_flag_session))))
       = [Inr (JObj [(''startDate'', JStr ''2025-01-01T12:00:00''),
                     (''deadlineType'', JStr ''SOFT''), (''schedule'', JStr ''Work Hours'')]),
          Inr (JObj [(''startDate'', JStr ''2025-01-01T12:00:02''),
                     (''deadlineType'', JStr ''SOFT''), (''schedule'', JStr ''Work Hours'')])]"
    by (simp add: eval_simps run_simps blank_schedule_session_def blank_schedule_flag_session_def
                  choose_schedule.simps demo_template_def tasks_url_def schedules_url_def)
  from 1 2 3 4 show ?thesis by simp
qed

text \<open>
  C3, amended. Whenever a payload is built, it has the key \<^verbatim>\<open>autoScheduled\<close> if and only if
  a schedule with a truthy (non-empty) name was selected or the autoschedule flag is set. A
  selected truthy name is the \<^verbatim>\<open>schedule\<close> of the block, also when the flag is set; when the
  flag is set and no schedule, or one with an empty name, was selected, the schedule is the
  string \<^verbatim>\<open>Work Hours\<close>; otherwise the key is absent from the payload, so that reading it
  raises \<^verbatim>\<open>KeyError\<close>.
\<close>

theorem auto_scheduled_block_rule:
  assumes "build_payload ws p t dstr w = (Inr pl, w')"
  shows "py_in ''autoScheduled'' pl
           = Inr ((\<exists>name. selected_schedule p = Some name \<and> truthy name) \<or> use_autoschedule p)
       \<and> (\<forall>name. selected_schedule p = Some name \<and> truthy name \<longrightarrow>
             subscript pl ''autoScheduled''
               = Inr (JObj [(''startDate'', JStr (iso_z (reading w (ticks w)))),
                            (''deadlineType'', JStr ''SOFT''), (''schedule'', name)]))
       \<and> (\<not> (\<exists>name. selected_schedule p = Some name \<and> truthy name) \<and> use_autoschedule p \<longrightarrow>
             subscript pl ''autoScheduled''
               = Inr (JObj [(''startDate'', JStr (iso_z (reading w (ticks w)))),
                            (''deadlineType'', JStr ''SOFT''), (''schedule'', JStr ''Work Hours'')]))
       \<and> (\<not> (\<exists>name. selected_schedule p = Some name \<and> truthy name) \<and> \<not> use_autoschedule p \<longrightarrow>
             subscript pl ''autoScheduled'' = Inl KeyError)"
proof -
  have sel: "truthy_opt (selected_schedule p) = (\<exists>name. selected_schedule p = Some name \<and> truthy name)"
    by (cases "selected_schedule p") (simp_all add: truthy_opt_def)
  from build_payload_Inr[OF assms] obtain nm wid dur pr where
    pl: "pl = JObj ([(''name'', nm), (''workspaceId'', wid), (''dueDate'', JStr dstr),
                       (''duration'', dur), (''priority'', pr)]
                      @ project_entry p @ sched_block p (reading w (ticks w)))"
    by blast
  show ?thesis
    unfolding pl sel[symmetric]
    by (auto simp: sched_block_def scheduled_def schedule_name_def project_entry_keys map_add_def
                   truthy_opt_def)
qed

theorem auto_scheduled_block_rule_witness:
  "fst (build_payload demo_workspace night_params (hd demo_specs) ''2024-12-31T23:59:59Z'' demo_world)
     = Inr (JObj [(''name'', JStr ''a''), (''workspaceId'', JStr ''ws1''),
                  (''dueDate'', JStr ''2024-12-31T23:59:59Z''), (''duration'', JInt 30),
                  (''priority'', JStr ''HIGH''),
                  (''autoScheduled'',
                   JObj [(''startDate'', JStr ''2025-01-01T12:00:00''),
                         (''deadlineType'', JStr ''SOFT''), (''schedule'', JStr ''Night Shift'')])])
   \<and> selected_schedule night_params = Some (JStr ''Night Shift'') \<and> truthy (JStr ''Night Shift'')
   \<and> use_autoschedule night_params
   \<and> subscript (JObj [(''name'', JStr ''a''), (''workspaceId'', JStr ''ws1''),
                  (''dueDate'', JStr ''2024-12-31T23:59:59Z''), (''duration'', JInt 30),
                  (''priority'', JStr ''HIGH''),
                  (''autoScheduled'',
                   JObj [(''startDate'', JStr ''2025-01-01T12:00:00''),
                         (''deadlineType'', JStr ''SOFT''), (''schedule'', JStr ''Night Shift'')])])
        ''autoScheduled''
     = Inr (JObj [(''startDate'', JStr (iso_z (reading demo_world (ticks demo_world)))),
                  (''deadlineType'', JStr ''SOFT''), (''schedule'', JStr ''Night Shift'')])
   \<and> selected_schedule flag_params = None \<and> use_autoschedule flag_params
   \<and> (\<exists>pl w'. build_payload demo_workspace flag_params (hd demo_specs) ''2024-12-31T23:59:59Z''
                  demo_world = (Inr pl, w')
          \<and> py_in ''autoScheduled'' pl = Inr True
          \<and> subscript pl ''autoScheduled''
              = Inr (JObj [(''startDate'', JStr (iso_z (reading demo_world (ticks demo_world)))),
                           (''deadlineType'', JStr ''SOFT''), (''schedule'', JStr ''Work Hours'')]))
   \<and> selected_schedule demo_params = None \<and> \<not> use_autoschedule demo_params
   \<and> (\<exists>pl w'. build_payload demo_workspace demo_params (hd demo_specs) ''2024-12-31T23:59:59Z''
                  demo_world = (Inr pl, w')
          \<and> py_in ''autoScheduled'' pl = Inr False
          \<and> subscript pl ''autoScheduled'' = Inl KeyError)"
proof -
  let ?b = "build_payload demo_workspace night_params (hd demo_specs) ''2024-12-31T23:59:59Z'' demo_world"
  let ?c = "build_payload demo_workspace flag_params (hd demo_specs) ''2024-12-31T23:59:59Z'' demo_world"
  let ?d = "build_payload demo_workspace demo_params (hd demo_specs) ''2024-12-31T23:59:59Z'' demo_world"
  let ?pl = "JObj [(''name'', JStr ''a''), (''workspaceId'', JStr ''ws1''),
                  (''dueDate'', JStr ''2024-12-31T23:59:59Z''), (''duration'', JInt 30),
                  (''priority'', JStr ''HIGH''),
                  (''autoScheduled'',
                   JObj [(''startDate'', JStr ''2025-01-01T12:00:00''),
                         (''deadlineType'', JStr ''SOFT''), (''schedule'', JStr ''Night Shift'')])]"
  have f: "fst ?b = Inr ?pl" by (simp add: eval_simps night_params_def)
  then have b: "?b = (Inr ?pl, snd ?b)" by (simp add: prod_eq_iff)
  have s: "selected_schedule night_params = Some (JStr ''Night Shift'')" "truthy (JStr ''Night Shift'')"
    "use_autoschedule night_params"
    by (simp_all add: night_params_def)
  from auto_scheduled_block_rule[OF b] s f
  have first: "subscript ?pl ''autoScheduled''
     = Inr (JObj [(''startDate'', JStr (iso_z (reading demo_world (ticks demo_world)))),
                  (''deadlineType'', JStr ''SOFT''), (''schedule'', JStr ''Night Shift'')])"
    by simp
  have sf: "selected_schedule flag_params = None" "use_autoschedule flag_params"
    by (simp_all add: flag_params_def demo_params_def)
  have "has_key (hd demo_specs) ''name''" "has_key (hd demo_specs) ''priority''"
    "has_key demo_workspace ''id''"
    by (simp_all add: demo_specs_def demo_workspace_def has_key_def)
  note ok = build_payload_ok[OF this]
  from ok[of flag_params "''2024-12-31T23:59:59Z''" demo_world] obtain plc wc where
    c: "?c = (Inr plc, wc)" by blast
  from auto_scheduled_block_rule[OF c] sf
  have second: "py_in ''autoScheduled'' plc = Inr True
          \<and> subscript plc ''autoScheduled''
              = Inr (JObj [(''startDate'', JStr (iso_z (reading demo_world (ticks demo_world)))),
                           (''deadlineType'', JStr ''SOFT''), (''schedule'', JStr ''Work Hours'')])"
    by simp
  have sd: "selected_schedule demo_params = None" "\<not> use_autoschedule demo_params"
    by (simp_all add: demo_params_def)
  from ok[of demo_params "''2024-12-31T23:59:59Z''" demo_world] obtain pld wd where
    d: "?d = (Inr pld, wd)" by blast
  from auto_scheduled_block_rule[OF d] sd
  have third: "py_in ''autoScheduled'' pld = Inr False
          \<and> subscript pld ''autoScheduled'' = Inl KeyError"
    by simp
  from f s first sf c second sd d third show ?thesis by blast
qed

text \<open>
  C10. The \<^verbatim>\<open>workspaceId\<close> of the payload built at replay from an entry that
  \<^verbatim>\<open>generate_task_template\<close> wrote for any workspace is the id of the workspace of the current
  run; and the body of the loop does the same on an entry with and without its stored
  \<^verbatim>\<open>workspaceId\<close>, whatever its value.
\<close>

theorem workspace_id_from_current_run:
  "(template_entry ws_gen src = Inr entry \<and> subscript ws_run ''id'' = Inr wid \<longrightarrow>
      (\<exists>pl w'. build_payload ws_run p entry dstr w = (Inr pl, w')
               \<and> subscript pl ''workspaceId'' = Inr wid))
   \<and> create_task ws_run p n i (JObj kvs) c w
       = create_task ws_run p n i (JObj (filter (\<lambda>kv. fst kv \<noteq> ''workspaceId'') kvs)) c w"
proof (intro conjI impI)
  assume a: "template_entry ws_gen src = Inr entry \<and> subscript ws_run ''id'' = Inr wid"
  then obtain nm old due dur pr where
    e: "entry = JObj [(''name'', nm), (''workspaceId'', old), (''dueDate'', due),
                     (''duration'', dur), (''priority'', pr)]"
    by (auto simp: template_entry_def split: sum.splits)
  have "has_key entry ''name''" "has_key entry ''priority''" "has_key ws_run ''id''"
    using a by (simp_all add: e has_key_def)
  from build_payload_ok[OF this] obtain pl w' where
    b: "build_payload ws_run p entry dstr w = (Inr pl, w')" by blast
  from build_payload_Inr[OF b] a have "payload_of ws_run p entry dstr (reading w (ticks w)) pl"
    unfolding payload_of_def by auto
  from payload_of_fields(2)[OF this] a b
  show "\<exists>pl w'. build_payload ws_run p entry dstr w = (Inr pl, w')
               \<and> subscript pl ''workspaceId'' = Inr wid"
    by auto
next
  let ?kvs' = "filter (\<lambda>kv. fst kv \<noteq> ''workspaceId'') kvs"
  have m: "\<And>k. k \<noteq> ''workspaceId'' \<Longrightarrow> map_of ?kvs' k = map_of kvs k"
    by (rule map_of_filter_other)
  have sn: "subscript (JObj ?kvs') ''name'' = subscript (JObj kvs) ''name''"
    and sp: "subscript (JObj ?kvs') ''priority'' = subscript (JObj kvs) ''priority''"
    and gd: "\<And>d. dict_get (JObj ?kvs') ''duration'' d = dict_get (JObj kvs) ''duration'' d"
    and gu: "\<And>d. dict_get (JObj ?kvs') ''dueDate'' d = dict_get (JObj kvs) ''dueDate'' d"
    by (simp_all add: m)
  have 1: "\<And>d w. compute_due_date (JObj ?kvs') d w = compute_due_date (JObj kvs) d w"
    unfolding compute_due_date_def gu by (rule refl)
  have 2: "\<And>s w. build_payload ws_run p (JObj ?kvs') s w = build_payload ws_run p (JObj kvs) s w"
    unfolding build_payload_def sn sp gd by (rule refl)
  have 3: "\<And>pl r c w. record_outcome (JObj ?kvs') pl r c w = record_outcome (JObj kvs) pl r c w"
    unfolding record_outcome_def sn by (rule refl)
  show "create_task ws_run p n i (JObj kvs) c w = create_task ws_run p n i (JObj ?kvs') c w"
    unfolding create_task_def 1 2 3 by (rule refl)
qed

theorem workspace_id_from_current_run_witness:
  "template_entry (JObj [(''id'', JStr ''old'')]) (JObj [(''name'', JStr ''x'')])
     = Inr (JObj [(''name'', JStr ''x''), (''workspaceId'', JStr ''old''),
                  (''dueDate'', JStr ''2024-12-31T23:59:59Z''), (''duration'', JInt 30),
                  (''priority'', JStr ''MEDIUM'')])
   \<and> subscript demo_workspace ''id'' = Inr (JStr ''ws1'')
   \<and> (\<exists>pl w'. build_payload demo_workspace demo_params
                 (JObj [(''name'', JStr ''x''), (''workspaceId'', JStr ''old''),
                        (''dueDate'', JStr ''2024-12-31T23:59:59Z''), (''duration'', JInt 30),
                        (''priority'', JStr ''MEDIUM'')]) ''2025-01-03T23:59:59Z'' demo_world
                 = (Inr pl, w')
               \<and> subscript pl ''workspaceId'' = Inr (JStr ''ws1''))"
proof -
  have e: "template_entry (JObj [(''id'', JStr ''old'')]) (JObj [(''name'', JStr ''x'')])
     = Inr (JObj [(''name'', JStr ''x''), (''workspaceId'', JStr ''old''),
                  (''dueDate'', JStr ''2024-12-31T23:59:59Z''), (''duration'', JInt 30),
                  (''priority'', JStr ''MEDIUM'')])"
    by (simp add: template_entry_def)
  have i: "subscript demo_workspace ''id'' = Inr (JStr ''ws1'')"
    by (simp add: demo_workspace_def)
  from workspace_id_from_current_run[of "JObj [(''id'', JStr ''old'')]" "JObj [(''name'', JStr ''x'')]"
         _ demo_workspace "JStr ''ws1''" demo_params "''2025-01-03T23:59:59Z''" demo_world] e i
  show ?thesis by simp
qed









text \<open>
  C9, as the code has it. The claim fails when the system clock is set back during the run:
  every \<^verbatim>\<open>startDate\<close> is a reading of \<^verbatim>\<open>datetime.utcnow()\<close> of its own, and with a clock
  that goes back by 20 seconds between two readings the run over two entries returns with the
  second \<^verbatim>\<open>startDate\<close> before the first.
\<close>

theorem start_dates_decrease_with_clock:
  "fst (dispatch_loop demo_workspace night_params 2 0 plain_specs (0, 0) backwards_world) = None
   \<and> map start_date
         (task_posts (trace (snd (snd (dispatch_loop demo_workspace night_params 2 0 plain_specs
                                         (0, 0) backwards_world)))))
       = [Some (JStr ''2025-01-01T12:00:50''), Some (JStr ''2025-01-01T12:00:30'')]"
  by (simp add: eval_simps night_params_def plain_specs_def backwards_world_def
                backwards_clock_def start_date_def tasks_url_def)

text \<open>
  C9, amended. In every run of the loop the payloads are sent in the order of the entries:
  the \<open>j\<close>-th request carries the payload of the \<open>j\<close>-th entry, for all entries when the run
  returns and for the first ones when an exception ends it. When the payloads carry an
  \<^verbatim>\<open>autoScheduled\<close> block, the \<^verbatim>\<open>startDate\<close> of the \<open>j\<close>-th one is a reading of the clock of
  its own, taken after the one of the entry before it; so, when the clock does not go
  backwards between two readings, the \<^verbatim>\<open>startDate\<close> of each task is at or after the one of the
  task before it.
\<close>

theorem submission_order_and_start_dates:
  assumes run: "dispatch_loop ws p n i specs c w = (r, c', w')"
  shows "\<exists>sent ks.
           length sent \<le> length specs \<and> (r = None \<longrightarrow> length sent = length specs)
         \<and> length ks = length sent
         \<and> task_posts (trace w') = task_posts (trace w) @ sent
         \<and> map (\<lambda>pl. subscript pl ''name'') sent
             = take (length sent) (map (\<lambda>t. subscript t ''name'') specs)
         \<and> (\<forall>j < length sent. \<exists>dstr. payload_of ws p (specs ! j) dstr (reading w (ks ! j)) (sent ! j))
         \<and> (\<forall>j < length sent.
               start_date (sent ! j)
                 = (if scheduled p then Some (JStr (iso_z (reading w (ks ! j)))) else None))
         \<and> (scheduled p \<longrightarrow> (\<forall>j. Suc j < length sent \<longrightarrow> ks ! j < ks ! Suc j))
         \<and> (\<forall>k \<in> set ks. ticks w \<le> k)
         \<and> (scheduled p \<and> (\<forall>a b. a \<le> b \<longrightarrow> timestamp (reading w a) \<le> timestamp (reading w b))
              \<longrightarrow> (\<forall>j. Suc j < length sent \<longrightarrow>
                      timestamp (reading w (ks ! j)) \<le> timestamp (reading w (ks ! Suc j))))"
proof -
  from dispatch_loop_sent[OF run] obtain sent ks where
    h: "length sent \<le> length specs" "r = None \<longrightarrow> length sent = length specs"
       "length ks = length sent"
       "task_posts (trace w') = task_posts (trace w) @ sent"
       "\<forall>j < length sent. \<exists>dstr. payload_of ws p (specs ! j) dstr (reading w (ks ! j)) (sent ! j)"
       "\<forall>k \<in> set ks. ticks w \<le> k"
       "scheduled p \<longrightarrow> sorted_wrt (<) ks"
    by blast
  have 2: "map (\<lambda>pl. subscript pl ''name'') sent
             = take (length sent) (map (\<lambda>t. subscript t ''name'') specs)"
    using h(5) h(1) by (rule payload_name_prefix)
  have 3: "\<forall>j < length sent.
               start_date (sent ! j)
                 = (if scheduled p then Some (JStr (iso_z (reading w (ks ! j)))) else None)"
  proof (intro allI impI)
    fix j assume "j < length sent"
    with h(5) obtain dstr where "payload_of ws p (specs ! j) dstr (reading w (ks ! j)) (sent ! j)"
      by blast
    from payload_of_fields(5)[OF this]
    show "start_date (sent ! j)
            = (if scheduled p then Some (JStr (iso_z (reading w (ks ! j)))) else None)" .
  qed
  have 4: "scheduled p \<longrightarrow> (\<forall>j. Suc j < length sent \<longrightarrow> ks ! j < ks ! Suc j)"
  proof (intro impI allI)
    fix j assume sp: "scheduled p" and j: "Suc j < length sent"
    from sp h(7) have "sorted_wrt (<) ks" by simp
    with j h(3) show "ks ! j < ks ! Suc j"
      by (simp add: sorted_wrt_iff_nth_less)
  qed
  have 5: "scheduled p \<and> (\<forall>a b. a \<le> b \<longrightarrow> timestamp (reading w a) \<le> timestamp (reading w b))
              \<longrightarrow> (\<forall>j. Suc j < length sent \<longrightarrow>
                      timestamp (reading w (ks ! j)) \<le> timestamp (reading w (ks ! Suc j)))"
  proof (intro impI allI)
    fix j
    assume a: "scheduled p \<and> (\<forall>a b. a \<le> b \<longrightarrow> timestamp (reading w a) \<le> timestamp (reading w b))"
      and j: "Suc j < length sent"
    from a j 4 have "ks ! j \<le> ks ! Suc j" by (simp add: less_imp_le)
    with a show "timestamp (reading w (ks ! j)) \<le> timestamp (reading w (ks ! Suc j))" by blast
  qed
  from h(1) h(2) h(3) h(4) 2 h(5) 3 4 h(6) 5 show ?thesis by blast
qed

theorem submission_order_and_start_dates_witness:
  "fst (dispatch_loop demo_workspace night_params 2 0 demo_specs (0, 0) demo_world) = None
   \<and> (\<forall>a d. timestamp (reading demo_world a) \<le> timestamp (reading demo_world (a + d)))
   \<and> scheduled night_params
   \<and> map start_date (task_posts (trace (snd (snd (dispatch_loop demo_workspace night_params 2 0
                                                     demo_specs (0, 0) demo_world)))))
       = [Some (JStr ''2025-01-01T12:00:00''), Some (JStr ''2025-01-01T12:00:02'')]
   \<and> (\<exists>pls ks. task_posts (trace (snd (snd (dispatch_loop demo_workspace night_params 2 0
                                              demo_specs (0, 0) demo_world)))) = pls
         \<and> length pls = 2 \<and> length ks = 2
         \<and> map (\<lambda>pl. subscript pl ''name'') pls = [Inr (JStr ''a''), Inr (JStr ''b'')]
         \<and> start_date (pls ! 0) = Some (JStr (iso_z (reading demo_world (ks ! 0))))
         \<and> start_date (pls ! 1) = Some (JStr (iso_z (reading demo_world (ks ! 1))))
         \<and> ks ! 0 < ks ! 1
         \<and> timestamp (reading demo_world (ks ! 0)) \<le> timestamp (reading demo_world (ks ! 1)))"
proof -
  let ?run = "dispatch_loop demo_workspace night_params 2 0 demo_specs (0, 0) demo_world"
  have r1: "fst ?run = None" by (simp add: eval_simps night_params_def)
  then have run: "?run = (None, fst (snd ?run), snd (snd ?run))" by (simp add: prod_eq_iff)
  have m: "\<forall>a b. a \<le> b \<longrightarrow> timestamp (reading demo_world a) \<le> timestamp (reading demo_world b)"
    by (simp add: reading_def demo_world_def demo_clock_def timestamp_def toordinal_def)
  have sc: "scheduled night_params" by (simp add: scheduled_def night_params_def)
  have sd: "map start_date (task_posts (trace (snd (snd ?run))))
       = [Some (JStr ''2025-01-01T12:00:00''), Some (JStr ''2025-01-01T12:00:02'')]"
    by (simp add: eval_simps night_params_def start_date_def tasks_url_def)
  have t0: "task_posts (trace demo_world) = []" by (simp add: demo_world_def)
  have l: "length demo_specs = 2" "map (\<lambda>t. subscript t ''name'') demo_specs = [Inr (JStr ''a''), Inr (JStr ''b'')]"
    by (simp_all add: demo_specs_def)
  from submission_order_and_start_dates[OF run] obtain pls ks where
    h: "length pls = length demo_specs" "length ks = length pls"
       "task_posts (trace (snd (snd ?run))) = task_posts (trace demo_world) @ pls"
       "map (\<lambda>pl. subscript pl ''name'') pls
          = take (length pls) (map (\<lambda>t. subscript t ''name'') demo_specs)"
       "\<forall>j < length pls.
               start_date (pls ! j)
                 = (if scheduled night_params then Some (JStr (iso_z (reading demo_world (ks ! j)))) else None)"
       "scheduled night_params \<longrightarrow> (\<forall>j. Suc j < length pls \<longrightarrow> ks ! j < ks ! Suc j)"
       "scheduled night_params
          \<and> (\<forall>a b. a \<le> b \<longrightarrow> timestamp (reading demo_world a) \<le> timestamp (reading demo_world b))
              \<longrightarrow> (\<forall>j. Suc j < length pls \<longrightarrow>
                      timestamp (reading demo_world (ks ! j)) \<le> timestamp (reading demo_world (ks ! Suc j)))"
    by blast
  from h(1) l have lp: "length pls = 2" by simp
  from h(4) lp l have nm: "map (\<lambda>pl. subscript pl ''name'') pls = [Inr (JStr ''a''), Inr (JStr ''b'')]"
    by simp
  from h(5) sc lp have s0: "start_date (pls ! 0) = Some (JStr (iso_z (reading demo_world (ks ! 0))))"
    and s1: "start_date (pls ! 1) = Some (JStr (iso_z (reading demo_world (ks ! 1))))"
    by simp_all
  from h(6) sc lp have o1: "ks ! 0 < ks ! 1" by (simp add: numeral_2_eq_2)
  from h(7) sc m lp have o2: "timestamp (reading demo_world (ks ! 0)) \<le> timestamp (reading demo_world (ks ! 1))"
    by (simp add: numeral_2_eq_2)
  have m': "\<forall>a d. timestamp (reading demo_world a) \<le> timestamp (reading demo_world (a + d))"
    using m by simp
  from r1 m' sc sd h(2) h(3) lp nm s0 s1 o1 o2 t0 show ?thesis by auto
qed

text \<open>
  C4. The due date that is sent does not always end in \<^verbatim>\<open>Z\<close>. The program replaces
  \<^verbatim>\<open>+00:00\<close> by \<^verbatim>\<open>Z\<close> in the output of \<^verbatim>\<open>isoformat()\<close>, but \<^verbatim>\<open>datetime.utcnow()\<close> and a
  parsed string without designator are naive values, whose \<^verbatim>\<open>isoformat()\<close> has no offset to
  replace, and another offset is printed as it is: for the three entries below the due dates
  sent are a naive timestamp, a naive timestamp and a timestamp with a numeric offset.
\<close>

theorem due_dates_without_z_suffix:
  "fst (dispatch_loop demo_workspace demo_params 3 0 odd_date_specs (0, 0) demo_world) = None
   \<and> map (\<lambda>pl. subscript pl ''dueDate'')
         (task_posts (trace (snd (snd (dispatch_loop demo_workspace demo_params 3 0 odd_date_specs
                                         (0, 0) demo_world)))))
       = [Inr (JStr ''2025-01-01T12:00:00''), Inr (JStr ''2025-01-03T23:59:59''),
          Inr (JStr ''2025-01-03T23:59:59+05:30'')]"
  by (simp add: eval_simps odd_date_specs_def tasks_url_def)

text \<open>
  C8, as the code has it. A template whose list of tasks is empty is not rejected: the guard
  lets it pass, the prompts run, a project is created when the user asks for one, and the
  function reports a completed run of 0 tasks.
\<close>

theorem empty_tasks_list_not_rejected:
  "invalid_template empty_template = Inr False
   \<and> fst (create_tasks_from_template demo_workspace empty_template planner_session) = None
   \<and> trace (snd (create_tasks_from_template demo_workspace empty_template planner_session))
       = [HttpPost projects_url
            (JObj [(''name'', JStr ''Plan''), (''workspaceId'', JStr ''ws1''),
                   (''priority'', JStr ''MEDIUM''), (''dueDate'', JStr ''2025-01-01T12:00:00'')]),
          Print (ProjectCreated ''Plan'' (JStr ''p1'')),
          HttpGet schedules_url, Print ErrorFetchingData, Print CouldNotRetrieveSchedules,
          Print (Completed 0 0 0)]"
  by (simp add: eval_simps run_simps empty_template_def planner_session_def)

text \<open>
  C8, amended. A file that cannot be loaded and a falsy template never reach the function;
  the function rejects a falsy template and an object without the key \<^verbatim>\<open>tasks\<close> with the
  message \<^verbatim>\<open>Invalid template format.\<close> and does nothing else; and for every template whose
  \<^verbatim>\<open>tasks\<close> gives no entry to loop over, the empty list included, no request is made to the
  task endpoint, whatever the prompts do.
\<close>

theorem no_task_request_without_entries:
  "replay ws None w = (None, w)
   \<and> (\<not> truthy template \<longrightarrow>
         replay ws (Some template) w = (None, w)
         \<and> create_tasks_from_template ws template w = (None, emit (Print InvalidTemplateFormat) w))
   \<and> (kvs \<noteq> [] \<and> map_of kvs ''tasks'' = None \<longrightarrow>
         create_tasks_from_template ws (JObj kvs) w = (None, emit (Print InvalidTemplateFormat) w))
   \<and> ((\<forall>tasks specs. subscript template ''tasks'' = Inr tasks \<and> py_iter tasks = Inr specs
                       \<longrightarrow> specs = []) \<longrightarrow>
         task_posts (trace (snd (create_tasks_from_template ws template w)))
           = task_posts (trace w))"
proof (intro conjI impI)
  show "replay ws None w = (None, w)" by (simp add: replay_def)
next
  assume "\<not> truthy template"
  then show "replay ws (Some template) w = (None, w)" by (simp add: replay_def)
next
  assume "\<not> truthy template"
  then show "create_tasks_from_template ws template w = (None, emit (Print InvalidTemplateFormat) w)"
    by (simp add: create_tasks_from_template_def invalid_template_def)
next
  assume "kvs \<noteq> [] \<and> map_of kvs ''tasks'' = None"
  then show "create_tasks_from_template ws (JObj kvs) w = (None, emit (Print InvalidTemplateFormat) w)"
    by (simp add: create_tasks_from_template_def invalid_template_def)
next
  assume none: "\<forall>tasks specs. subscript template ''tasks'' = Inr tasks \<and> py_iter tasks = Inr specs
                       \<longrightarrow> specs = []"
  show "task_posts (trace (snd (create_tasks_from_template ws template w))) = task_posts (trace w)"
  proof (cases "invalid_template template")
    case (Inl e)
    then show ?thesis by (simp add: create_tasks_from_template_def)
  next
    case (Inr b)
    show ?thesis
    proof (cases b)
      case True
      with Inr show ?thesis by (simp add: create_tasks_from_template_def)
    next
      case False
      obtain r w1 where g: "gather_run_params ws w = (r, w1)" by (cases "gather_run_params ws w")
      note tg = gather_run_params_posts[OF g]
      show ?thesis
      proof (cases r)
        case (Inl e)
        with Inr False g tg show ?thesis by (simp add: create_tasks_from_template_def)
      next
        case p: (Inr p)
        show ?thesis
        proof (cases "subscript template ''tasks''")
          case (Inl e)
          with Inr False g p tg show ?thesis by (simp add: create_tasks_from_template_def)
        next
          case t: (Inr tasks)
          show ?thesis
          proof (cases "py_iter tasks")
            case (Inl e)
            with Inr False g p t tg show ?thesis by (simp add: create_tasks_from_template_def)
          next
            case s: (Inr specs)
            with none t have "specs = []" by blast
            with \<open>invalid_template template = Inr b\<close> False g p t s tg show ?thesis
              by (simp add: create_tasks_from_template_def)
          qed
        qed
      qed
    qed
  qed
qed

theorem no_task_request_without_entries_witness:
  "\<not> truthy (JObj [])
   \<and> replay demo_workspace (Some (JObj [])) planner_session = (None, planner_session)
   \<and> create_tasks_from_template demo_workspace (JObj []) planner_session
       = (None, emit (Print InvalidTemplateFormat) planner_session)
   \<and> [(''jobs'', JList [])] \<noteq> [] \<and> map_of [(''jobs'', JList [])] ''tasks'' = None
   \<and> create_tasks_from_template demo_workspace (JObj [(''jobs'', JList [])]) planner_session
       = (None, emit (Print InvalidTemplateFormat) planner_session)
   \<and> subscript empty_template ''tasks'' = Inr (JList []) \<and> py_iter (JList []) = Inr []
   \<and> task_posts (trace (snd (create_tasks_from_template demo_workspace empty_template planner_session)))
       = task_posts (trace planner_session)"
proof -
  have c': "subscript empty_template ''tasks'' = Inr (JList []) \<and> py_iter (JList []) = Inr []"
    by (simp add: empty_template_def)
  have a: "\<not> truthy (JObj [])" by simp
  have b: "[(''jobs'', JList [])] \<noteq> [] \<and> map_of [(''jobs'', JList [])] ''tasks'' = (None :: json option)"
    by simp
  have c: "\<forall>tasks specs. subscript empty_template ''tasks'' = Inr tasks \<and> py_iter tasks = Inr specs
                       \<longrightarrow> specs = []"
    by (auto simp: empty_template_def)
  from no_task_request_without_entries[of demo_workspace planner_session "JObj []" "[(''jobs'', JList [])]"] a b
  have 1: "replay demo_workspace (Some (JObj [])) planner_session = (None, planner_session)"
    and 2: "create_tasks_from_template demo_workspace (JObj []) planner_session
       = (None, emit (Print InvalidTemplateFormat) planner_session)"
    and 3: "create_tasks_from_template demo_workspace (JObj [(''jobs'', JList [])]) planner_session
       = (None, emit (Print InvalidTemplateFormat) planner_session)"
    by blast+
  from no_task_request_without_entries[of demo_workspace planner_session empty_template "[]"] c
  have 4: "task_posts (trace (snd (create_tasks_from_template demo_workspace empty_template planner_session)))
       = task_posts (trace planner_session)"
    by blast
  from a b c' 1 2 3 4 show ?thesis by blast
qed

end
